theory Spec2Isabelle
  imports Complex_Main "HOL-Library.Word"
begin

section \<open>Numbers, boxes and the placement table\<close>

text \<open>
  The program is the try-on module of Closetly (TypeScript). A JavaScript number is an
  IEEE double; here a finite number is a \<^typ>\<open>real\<close>, so products and sums are exact,
  and the three non-finite doubles are constructors of their own. Every constant of the
  source is a short decimal, written as the source writes it. A double product can miss
  the exact one in its last bit (\<open>600 * 0.82\<close> is \<open>491.99999999999994\<close>). That
  shows where the program floors a product, in the size of an offscreen canvas (the
  examples below use boxes whose products are exact as doubles too), and where it
  compares one with a bound, in \<open>isValidBox\<close>, which is modelled with the double
  product.
\<close>

datatype jsnum = Num real | NaN | PosInf | NegInf

text \<open>
  \<^verbatim>\<open>interface PlacementBox { x; y; width; height; rotationDeg? }\<close>. The four
  fractions are finite wherever the program builds a box (a literal of a table, or a
  result of \<open>clamp01\<close>); the rotation is whatever number the JSON held.
\<close>

record PlacementBox =
  box_x :: real
  box_y :: real
  box_width :: real
  box_height :: real
  rotationDeg :: jsnum

text \<open>
  One product of the program is compared at its last bit: the area of \<open>isValidBox\<close>.
  There the double arithmetic is modelled as it is. \<open>doubleOf x\<close> is the double nearest
  to \<open>x\<close>, ties to the even significand: 53 significant bits down to the exponent
  \<open>- 1022\<close>, a fixed spacing of \<open>2 powi - 1074\<close> below it, and no upper limit (a
  product of two fractions of \<open>[0, 1]\<close> does not overflow). The product of two doubles
  \<open>a\<close> and \<open>b\<close> is \<open>doubleOf (a * b)\<close>, and a decimal literal \<open>c\<close> of the
  source is \<open>doubleOf c\<close>.
\<close>

definition roundHalfEven :: "real \<Rightarrow> int" where
  "roundHalfEven m =
     (let f = \<lfloor>m\<rfloor>
      in if m - of_int f < 1 / 2 then f
         else if m - of_int f > 1 / 2 then f + 1
         else if even f then f else f + 1)"

definition doubleUlp :: "real \<Rightarrow> real" where
  "doubleUlp x = 2 powi (max \<lfloor>log 2 \<bar>x\<bar>\<rfloor> (- 1022) - 52)"

definition doubleOf :: "real \<Rightarrow> real" where
  "doubleOf x = (if x = 0 then 0 else of_int (roundHalfEven (x / doubleUlp x)) * doubleUlp x)"

text \<open>
  \<^verbatim>\<open>function isValidBox(box)\<close>. The comparisons of \<open>within\<close> are exact on doubles;
  \<open>area\<close> is the double product, compared with the double \<open>0.02\<close>.
\<close>

definition isValidBox :: "PlacementBox \<Rightarrow> bool" where
  "isValidBox box =
     (let withinRange =
            (box_x box \<ge> 0 \<and> box_x box \<le> 1 \<and>
             box_y box \<ge> 0 \<and> box_y box \<le> 1 \<and>
             box_width box > 0 \<and> box_width box \<le> 1 \<and>
             box_height box > 0 \<and> box_height box \<le> 1);
          area = doubleOf (box_width box * box_height box)
      in withinRange \<and> area \<ge> doubleOf 0.02)"

text \<open>\<^verbatim>\<open>function getDefaultBox(garmentType: string)\<close>: a switch on the string.\<close>

definition getDefaultBox :: "string \<Rightarrow> PlacementBox" where
  "getDefaultBox garmentType =
     (if garmentType = ''dress'' then
        \<lparr>box_x = 0.225, box_y = 0.08, box_width = 0.55, box_height = 0.82, rotationDeg = Num 0\<rparr>
      else if garmentType = ''tshirt'' \<or> garmentType = ''top'' then
        \<lparr>box_x = 0.25, box_y = 0.18, box_width = 0.5, box_height = 0.4, rotationDeg = Num 0\<rparr>
      else if garmentType = ''pants'' then
        \<lparr>box_x = 0.25, box_y = 0.35, box_width = 0.5, box_height = 0.45, rotationDeg = Num 0\<rparr>
      else if garmentType = ''shorts'' then
        \<lparr>box_x = 0.25, box_y = 0.35, box_width = 0.5, box_height = 0.25, rotationDeg = Num 0\<rparr>
      else if garmentType = ''footwear'' then
        \<lparr>box_x = 0.35, box_y = 0.78, box_width = 0.3, box_height = 0.18, rotationDeg = Num 0\<rparr>
      else if garmentType = ''accessory'' then
        \<lparr>box_x = 0.4, box_y = 0.1, box_width = 0.2, box_height = 0.2, rotationDeg = Num 0\<rparr>
      else
        \<lparr>box_x = 0.25, box_y = 0.2, box_width = 0.5, box_height = 0.5, rotationDeg = Num 0\<rparr>)"

text \<open>
  The second copy of the table: the \<^verbatim>\<open>switch(garment.type)\<close> inside the drawing loop
  of \<open>composeTryOnImage\<close>, which does not call \<open>getDefaultBox\<close>.
\<close>

definition garmentBox :: "string \<Rightarrow> PlacementBox" where
  "garmentBox garmentType =
     (if garmentType = ''dress'' then
        \<lparr>box_x = 0.225, box_y = 0.08, box_width = 0.55, box_height = 0.82, rotationDeg = Num 0\<rparr>
      else if garmentType = ''tshirt'' \<or> garmentType = ''top'' then
        \<lparr>box_x = 0.25, box_y = 0.18, box_width = 0.5, box_height = 0.4, rotationDeg = Num 0\<rparr>
      else if garmentType = ''pants'' then
        \<lparr>box_x = 0.25, box_y = 0.35, box_width = 0.5, box_height = 0.45, rotationDeg = Num 0\<rparr>
      else if garmentType = ''shorts'' then
        \<lparr>box_x = 0.25, box_y = 0.35, box_width = 0.5, box_height = 0.25, rotationDeg = Num 0\<rparr>
      else if garmentType = ''footwear'' then
        \<lparr>box_x = 0.35, box_y = 0.78, box_width = 0.3, box_height = 0.18, rotationDeg = Num 0\<rparr>
      else if garmentType = ''accessory'' then
        \<lparr>box_x = 0.4, box_y = 0.1, box_width = 0.2, box_height = 0.2, rotationDeg = Num 0\<rparr>
      else
        \<lparr>box_x = 0.25, box_y = 0.2, box_width = 0.5, box_height = 0.5, rotationDeg = Num 0\<rparr>)"

text \<open>The six categories of the specification's data model (section 3 and the glossary).\<close>

definition categories :: "string list" where
  "categories = [''top'', ''pants'', ''shorts'', ''dress'', ''footwear'', ''accessory'']"

text \<open>The box the table returns when no case of the switch matches.\<close>

definition defaultBox :: PlacementBox where
  "defaultBox =
     \<lparr>box_x = 0.25, box_y = 0.2, box_width = 0.5, box_height = 0.5, rotationDeg = Num 0\<rparr>"

text \<open>The fractions of a box, for the range statement: all four lie in \<open>[0, 1]\<close>.\<close>

definition fractions_in_unit :: "PlacementBox \<Rightarrow> bool" where
  "fractions_in_unit box =
     (0 \<le> box_x box \<and> box_x box \<le> 1 \<and> 0 \<le> box_y box \<and> box_y box \<le> 1 \<and>
      0 \<le> box_width box \<and> box_width box \<le> 1 \<and> 0 \<le> box_height box \<and> box_height box \<le> 1)"

section \<open>The background stripper, pixel by pixel\<close>

text \<open>
  \<open>ImageData.data\<close> is a \<open>Uint8ClampedArray\<close>: bytes, four per pixel (R, G, B, A).
  Storing a number into it clamps the number to \<open>0..255\<close>.
\<close>

type_synonym byte = "8 word"

definition toUint8Clamped :: "int \<Rightarrow> byte" where
  "toUint8Clamped v = word_of_int (max 0 (min 255 v))"

text \<open>
  The body of the loop of \<open>drawGarmentWithBgRemoval\<close>: the value stored at
  \<open>data[i + 3]\<close> for the pixel \<open>r, g, b, a\<close>. \<open>Math.round\<close> rounds a half up, as
  \<^const>\<open>round\<close> does.
\<close>

definition stripAlpha :: "byte \<Rightarrow> byte \<Rightarrow> byte \<Rightarrow> byte \<Rightarrow> byte" where
  "stripAlpha r g b a =
     (let brightness = 0.299 * real (unat r) + 0.587 * real (unat g) + 0.114 * real (unat b);
          maxRGB = max (real (unat r)) (max (real (unat g)) (real (unat b)));
          minRGB = min (real (unat r)) (min (real (unat g)) (real (unat b)));
          contrast = maxRGB - minRGB;
          saturation = contrast / (maxRGB + 0.001)
      in if brightness > 230 \<and> contrast < 25 then 0
         else if brightness > 210 \<and> contrast < 20 \<and> saturation < 0.15 then 0
         else if real (unat r) > 245 \<and> real (unat g) > 245 \<and> real (unat b) > 245 then 0
         else toUint8Clamped (min 255 (round (real (unat a) * 0.99))))"

text \<open>
  The loop \<^verbatim>\<open>for (let i = 0; i < data.length; i += 4)\<close>: only the alpha byte of each
  pixel is written. Fewer than four bytes at the end (which \<open>getImageData\<close> never
  produces) stay as they are: the store would fall outside the array.
\<close>

fun stripData :: "byte list \<Rightarrow> byte list" where
  "stripData (r # g # b # a # rest) = r # g # b # stripAlpha r g b a # stripData rest"
| "stripData rest = rest"

text \<open>
  The three background tests of the specification (section 4.2), on the channel values as
  numbers: luma \<open>L\<close>, spread \<open>C\<close> and saturation \<open>S\<close> with \<open>\<epsilon> = 0.001\<close>.
\<close>

definition luma :: "byte \<Rightarrow> byte \<Rightarrow> byte \<Rightarrow> real" where
  "luma r g b = 0.299 * real (unat r) + 0.587 * real (unat g) + 0.114 * real (unat b)"

definition maxChannel :: "byte \<Rightarrow> byte \<Rightarrow> byte \<Rightarrow> real" where
  "maxChannel r g b = max (real (unat r)) (max (real (unat g)) (real (unat b)))"

definition minChannel :: "byte \<Rightarrow> byte \<Rightarrow> byte \<Rightarrow> real" where
  "minChannel r g b = min (real (unat r)) (min (real (unat g)) (real (unat b)))"

definition spread :: "byte \<Rightarrow> byte \<Rightarrow> byte \<Rightarrow> real" where
  "spread r g b = maxChannel r g b - minChannel r g b"

definition isBackground :: "byte \<Rightarrow> byte \<Rightarrow> byte \<Rightarrow> bool" where
  "isBackground r g b =
     ((luma r g b > 230 \<and> spread r g b < 25) \<or>
      (luma r g b > 210 \<and> spread r g b < 20 \<and>
         spread r g b / (maxChannel r g b + 0.001) < 0.15) \<or>
      (unat r > 245 \<and> unat g > 245 \<and> unat b > 245))"

section \<open>Images, files and the host\<close>

text \<open>\<^verbatim>\<open>gender: "male" | "female" | "any"\<close>\<close>

datatype gender = Male | Female | AnyGender

text \<open>
  What a canvas was painted with. The procedural model is a flat sequence of filled
  shapes; every ellipse of the source is a full turn (\<open>0\<close> to \<open>2 * Math.PI\<close>), so
  only its centre, radii and rotation are kept.
\<close>

datatype fillStyle =
    Color string
  | RadialGradient real real real real real real "(real \<times> string) list"

datatype shape =
    FillRect fillStyle real real real real
  | FillEllipse fillStyle real real real real real
  | FillPolygon fillStyle "(real \<times> real) list"

text \<open>
  An \<open>HTMLImageElement\<close> once loaded: its size, and where its pixels come from (a
  decoded URL, or the data URL of a canvas this module painted).
\<close>

datatype content = Decoded string | Rendered "shape list"

record image =
  img_width :: nat
  img_height :: nat
  img_content :: content

text \<open>A \<open>File\<close>: its MIME type and its bytes.\<close>

record File =
  file_type :: string
  file_bytes :: "byte list"

text \<open>\<^verbatim>\<open>interface GarmentInput { url: string; type: string; file: File }\<close>\<close>

record GarmentInput =
  url :: string
  gtype :: string
  gfile :: File

text \<open>
  \<open>fileToBase64\<close>: the payload and the MIME type (\<open>image/png\<close> when the file has
  none). The payload is kept as the bytes themselves; the base-64 text is not modelled.
\<close>

definition fileToBase64 :: "File \<Rightarrow> byte list \<times> string" where
  "fileToBase64 f =
     (let mimeType = (if file_type f \<noteq> [] then file_type f else ''image/png'')
      in (file_bytes f, mimeType))"

text \<open>
  A request to the generative service: the API key of the client, the model name, the
  prompt (by kind, with the data the source interpolates into its text parts) and the
  inline images in the order sent. A reply is the parts of the first candidate, or a
  thrown error.
\<close>

datatype prompt =
    OutfitPrompt "string list" gender
  | SimplePrompt
  | AnalysisPrompt "string list"
  | PlacementPrompt string

datatype request = Request string string prompt "(byte list \<times> string) list"

datatype part = TextPart string | InlineData string string

datatype reply = Failed | Reply "part list"

text \<open>What \<open>JSON.parse\<close> returns; an object is the list of its properties.\<close>

datatype json =
    JNull
  | JBool bool
  | JNum jsnum
  | JStr string
  | JArr "json list"
  | JObj "(string \<times> json) list"

text \<open>
  The host: everything the module asks of the browser and the network. Each is a
  function of what the module passes, and the theorems hold for every host.
  \<^item> \<open>envApiKey\<close>: \<open>import.meta.env.VITE_GOOGLE_AI_API_KEY\<close>;
  \<^item> \<open>decode\<close>: whether an image URL loads (\<open>onload\<close>) or not (\<open>onerror\<close>);
  \<^item> \<open>canvas2d w h\<close>: whether \<open>getContext("2d")\<close> of a new canvas of that size
    gives a context;
  \<^item> \<open>rasterize img w h\<close>: the bytes \<open>getImageData\<close> reads after the image was
    drawn scaled to \<open>w\<close> by \<open>h\<close> on an empty canvas;
  \<^item> \<open>generateContent\<close>: the service; \<open>parseJSON\<close>: \<open>JSON.parse\<close>, \<open>None\<close>
    for a \<open>SyntaxError\<close>.
\<close>

record host =
  envApiKey :: "string option"
  decode :: "string \<Rightarrow> image option"
  canvas2d :: "nat \<Rightarrow> nat \<Rightarrow> bool"
  rasterize :: "image \<Rightarrow> nat \<Rightarrow> nat \<Rightarrow> byte list"
  generateContent :: "request \<Rightarrow> reply"
  parseJSON :: "string \<Rightarrow> json option"

text \<open>The errors the module throws.\<close>

datatype error =
    MissingApiKey
  | ServiceError
  | FailedToLoadImage string
  | FailedToLoadAnyGarmentImages
  | CanvasNotSupported

text \<open>\<open>loadImage(src)\<close>: resolves with the image or rejects.\<close>

definition loadImage :: "host \<Rightarrow> string \<Rightarrow> error + image" where
  "loadImage h src =
     (case decode h src of
        Some img \<Rightarrow> Inr img
      | None \<Rightarrow> Inl (FailedToLoadImage (take 50 src @ ''...'')))"

section \<open>The 2D context\<close>

text \<open>
  The part of a \<open>CanvasRenderingContext2D\<close> the module touches: the shadow fields,
  \<open>globalAlpha\<close>, the transform (as the list of calls made), the stack of \<open>save\<close>,
  and what \<open>drawImage\<close> painted, each draw with the state it was painted under.
\<close>

datatype xform = Translate real real | RotateDeg jsnum

datatype drawSource = FromImage image | FromCanvas nat nat "byte list"

record drawOp =
  op_source :: drawSource
  op_x :: real
  op_y :: real
  op_w :: real
  op_h :: real
  op_alpha :: real
  op_shadowColor :: string
  op_shadowBlur :: real
  op_shadowOffsetX :: real
  op_shadowOffsetY :: real
  op_transform :: "xform list"

record ctx2d =
  shadowColor :: string
  shadowBlur :: real
  shadowOffsetX :: real
  shadowOffsetY :: real
  globalAlpha :: real
  transform :: "xform list"
  saved :: "(string \<times> real \<times> real \<times> real \<times> real \<times> xform list) list"
  drawn :: "drawOp list"

text \<open>The context of a new canvas: no shadow, opaque, identity transform.\<close>

definition newContext :: ctx2d where
  "newContext =
     \<lparr>shadowColor = ''rgba(0, 0, 0, 0)'', shadowBlur = 0, shadowOffsetX = 0,
      shadowOffsetY = 0, globalAlpha = 1, transform = [], saved = [], drawn = []\<rparr>"

definition drawImage :: "ctx2d \<Rightarrow> drawSource \<Rightarrow> real \<Rightarrow> real \<Rightarrow> real \<Rightarrow> real \<Rightarrow> ctx2d" where
  "drawImage ctx src x y w h =
     ctx\<lparr>drawn := drawn ctx @
       [\<lparr>op_source = src, op_x = x, op_y = y, op_w = w, op_h = h,
         op_alpha = globalAlpha ctx, op_shadowColor = shadowColor ctx,
         op_shadowBlur = shadowBlur ctx, op_shadowOffsetX = shadowOffsetX ctx,
         op_shadowOffsetY = shadowOffsetY ctx, op_transform = transform ctx\<rparr>]\<rparr>"

definition ctxSave :: "ctx2d \<Rightarrow> ctx2d" where
  "ctxSave ctx =
     ctx\<lparr>saved := (shadowColor ctx, shadowBlur ctx, shadowOffsetX ctx, shadowOffsetY ctx,
                    globalAlpha ctx, transform ctx) # saved ctx\<rparr>"

definition ctxRestore :: "ctx2d \<Rightarrow> ctx2d" where
  "ctxRestore ctx =
     (case saved ctx of
        [] \<Rightarrow> ctx
      | (c, bl, ox, oy, al, tr) # rest \<Rightarrow>
          ctx\<lparr>shadowColor := c, shadowBlur := bl, shadowOffsetX := ox, shadowOffsetY := oy,
              globalAlpha := al, transform := tr, saved := rest\<rparr>)"

definition ctxTranslate :: "ctx2d \<Rightarrow> real \<Rightarrow> real \<Rightarrow> ctx2d" where
  "ctxTranslate ctx x y = ctx\<lparr>transform := transform ctx @ [Translate x y]\<rparr>"

text \<open>\<open>ctx.rotate((deg * Math.PI) / 180)\<close>, recorded by its angle in degrees.\<close>

definition ctxRotateDeg :: "ctx2d \<Rightarrow> jsnum \<Rightarrow> ctx2d" where
  "ctxRotateDeg ctx deg = ctx\<lparr>transform := transform ctx @ [RotateDeg deg]\<rparr>"

section \<open>Drawing one garment\<close>

text \<open>
  \<open>drawGarmentWithBgRemoval(ctx, img, x, y, w, h)\<close>. The offscreen canvas is
  \<open>max(1, floor w)\<close> by \<open>max(1, floor h)\<close>; without a context for it the image is
  drawn as it is at alpha \<open>0.95\<close> and the function returns.
\<close>

definition offscreenSize :: "real \<Rightarrow> nat" where
  "offscreenSize w = nat (max 1 \<lfloor>w\<rfloor>)"

definition drawGarmentWithBgRemoval ::
  "host \<Rightarrow> ctx2d \<Rightarrow> image \<Rightarrow> real \<Rightarrow> real \<Rightarrow> real \<Rightarrow> real \<Rightarrow> ctx2d" where
  "drawGarmentWithBgRemoval hst ctx img x y w h =
     (let offW = offscreenSize w; offH = offscreenSize h
      in if \<not> canvas2d hst offW offH then
           drawImage (ctx\<lparr>globalAlpha := 0.95\<rparr>) (FromImage img) x y w h
         else
           (let data = stripData (rasterize hst img offW offH);
                ctx1 = ctx\<lparr>shadowColor := ''rgba(0, 0, 0, 0.15)'', shadowBlur := 5,
                          shadowOffsetX := 2, shadowOffsetY := 3\<rparr>;
                ctx2 = ctx1\<lparr>globalAlpha := 0.98\<rparr>;
                ctx3 = drawImage ctx2 (FromCanvas offW offH data) x y w h
            in ctx3\<lparr>shadowColor := ''transparent'', shadowBlur := 0,
                    shadowOffsetX := 0, shadowOffsetY := 0\<rparr>))"

section \<open>The procedural model\<close>

text \<open>
  \<open>createStandardModelImage(gender)\<close> paints a canvas of \<open>400\<close> by \<open>600\<close>. The
  shapes that depend on the gender are named; \<open>cw\<close> is \<open>canvas.width\<close>.
\<close>

definition headEllipse :: "real \<Rightarrow> gender \<Rightarrow> fillStyle \<Rightarrow> shape" where
  "headEllipse cw gender style =
     (if gender = Male then FillEllipse style (cw / 2) 80 32 38 0
      else if gender = Female then FillEllipse style (cw / 2) 80 30 40 0
      else FillEllipse style (cw / 2) 80 31 39 0)"

definition hairEllipse :: "real \<Rightarrow> gender \<Rightarrow> fillStyle \<Rightarrow> shape" where
  "hairEllipse cw gender style =
     (if gender = Male then FillEllipse style (cw / 2) 70 32 20 0
      else if gender = Female then FillEllipse style (cw / 2) 65 35 28 0
      else FillEllipse style (cw / 2) 67 33 24 0)"

text \<open>The shoulders: \<open>moveTo\<close>, three \<open>lineTo\<close>, \<open>closePath\<close>.\<close>

definition shoulderPolygon :: "real \<Rightarrow> gender \<Rightarrow> (real \<times> real) list" where
  "shoulderPolygon cw gender =
     (if gender = Male then
        [(cw / 2 - 55, 145), (cw / 2 - 42, 170), (cw / 2 + 42, 170), (cw / 2 + 55, 145)]
      else if gender = Female then
        [(cw / 2 - 48, 145), (cw / 2 - 38, 170), (cw / 2 + 38, 170), (cw / 2 + 48, 145)]
      else
        [(cw / 2 - 50, 145), (cw / 2 - 40, 170), (cw / 2 + 40, 170), (cw / 2 + 50, 145)])"

definition torsoPolygon :: "real \<Rightarrow> gender \<Rightarrow> (real \<times> real) list" where
  "torsoPolygon cw gender =
     (if gender = Male then
        [(cw / 2 - 42, 170), (cw / 2 - 38, 330), (cw / 2 + 38, 330), (cw / 2 + 42, 170)]
      else if gender = Female then
        [(cw / 2 - 40, 170), (cw / 2 - 32, 330), (cw / 2 + 32, 330), (cw / 2 + 40, 170)]
      else
        [(cw / 2 - 40, 170), (cw / 2 - 35, 330), (cw / 2 + 35, 330), (cw / 2 + 40, 170)])"

definition modelShapes :: "real \<Rightarrow> real \<Rightarrow> gender \<Rightarrow> shape list" where
  "modelShapes cw chh gender =
     (let skinTone = Color ''#f4a261'';
          hairColor = Color (if gender = Male then ''#1a202c'' else ''#2d3748'');
          feature = Color ''rgba(0, 0, 0, 0.1)''
      in [FillRect
            (RadialGradient (cw / 2) (chh / 3) 0 (cw / 2) (chh / 2) cw
               [(0, ''#ffffff''), (0.3, ''#f8f9fa''), (0.7, ''#e9ecef''), (1, ''#dee2e6'')])
            0 0 cw chh,
          FillEllipse (Color ''rgba(0, 0, 0, 0.05)'') (cw / 2) (chh - 20) 80 15 0,
          headEllipse cw gender skinTone,
          hairEllipse cw gender hairColor,
          FillEllipse feature (cw / 2 - 12) 75 3 2 0,
          FillEllipse feature (cw / 2 + 12) 75 3 2 0,
          FillEllipse feature (cw / 2) 85 2 3 0,
          FillEllipse feature (cw / 2) 95 4 2 0,
          FillRect skinTone (cw / 2 - 12) 115 24 30,
          FillPolygon skinTone (shoulderPolygon cw gender),
          FillPolygon skinTone (torsoPolygon cw gender),
          FillEllipse skinTone (cw / 2 - 60) 220 18 100 (- 0.15),
          FillEllipse skinTone (cw / 2 + 60) 220 18 100 0.15,
          FillEllipse skinTone (cw / 2 - 60) 320 10 15 (- 0.15),
          FillEllipse skinTone (cw / 2 + 60) 320 10 15 0.15,
          FillEllipse skinTone (cw / 2 - 20) 450 20 130 0,
          FillEllipse skinTone (cw / 2 + 20) 450 20 130 0,
          FillEllipse skinTone (cw / 2 - 20) 580 15 10 0,
          FillEllipse skinTone (cw / 2 + 20) 580 15 10 0])"

text \<open>
  The image resolves once the data URL of the canvas has loaded; it has the size of the
  canvas. Without a 2D context the promise rejects.
\<close>

definition createStandardModelImage :: "host \<Rightarrow> gender \<Rightarrow> error + image" where
  "createStandardModelImage hst gender =
     (if \<not> canvas2d hst 400 600 then Inl CanvasNotSupported
      else Inr \<lparr>img_width = 400, img_height = 600,
                img_content = Rendered (modelShapes 400 600 gender)\<rparr>)"

text \<open>
  Half the horizontal extent of a polygon along the line \<open>y = level\<close>: the measure the
  shoulder property is stated with.
\<close>

definition halfWidthAt :: "real \<Rightarrow> (real \<times> real) list \<Rightarrow> real" where
  "halfWidthAt level pts =
     (case map fst (filter (\<lambda>p. snd p = level) pts) of
        [] \<Rightarrow> 0
      | v # vs \<Rightarrow> (fold max vs v - fold min vs v) / 2)"

section \<open>The remote adapter\<close>

text \<open>A string is truthy when it is there and not empty.\<close>

definition keyTruthy :: "string option \<Rightarrow> bool" where
  "keyTruthy k = (case k of None \<Rightarrow> False | Some v \<Rightarrow> v \<noteq> [])"

text \<open>
  \<^verbatim>\<open>parts.find(part => part.inlineData?.mimeType?.startsWith("image/"))\<close>: the first
  inline part with an image MIME type, as (MIME type, data).
\<close>

fun findImagePart :: "part list \<Rightarrow> (string \<times> string) option" where
  "findImagePart [] = None"
| "findImagePart (TextPart t # ps) = findImagePart ps"
| "findImagePart (InlineData m d # ps) =
     (if take 6 m = ''image/'' then Some (m, d) else findImagePart ps)"

text \<open>The data URL returned when the found part has data; \<open>None\<close> otherwise.\<close>

definition imageOfReply :: "part list \<Rightarrow> string option" where
  "imageOfReply ps =
     (case findImagePart ps of
        None \<Rightarrow> None
      | Some (m, d) \<Rightarrow> if d \<noteq> [] then Some (''data:'' @ m @ '';base64,'' @ d) else None)"

definition imageModel :: string where
  "imageModel = ''gemini-2.0-flash-preview-image-generation''"

definition textModel :: string where
  "textModel = ''gemini-1.5-flash''"

definition payloads :: "GarmentInput list \<Rightarrow> (byte list \<times> string) list" where
  "payloads gs = map (\<lambda>g. fileToBase64 (gfile g)) gs"

text \<open>
  \<open>generateAITryOn(garments, apiKey, gender)\<close>: the requests sent, in order, and the
  data URL or \<open>null\<close>. The list is cut to its first five garments before anything is
  sent. A first request that throws is retried once with the first two garments (when
  there were more than two); when no image came back the text model is asked for a
  styling analysis, whose answer is only logged, and the result is \<open>null\<close>. A throw
  inside a \<open>try\<close> is modelled as the failure of the request of that \<open>try\<close>.
\<close>

definition generateAITryOn ::
  "host \<Rightarrow> GarmentInput list \<Rightarrow> string \<Rightarrow> gender \<Rightarrow> request list \<times> string option" where
  "generateAITryOn hst garments0 apiKey gender =
     (let garments = (if length garments0 > 5 then take 5 garments0 else garments0);
          req1 = Request apiKey imageModel (OutfitPrompt (map gtype garments) gender)
                   (payloads garments);
          req2 = Request apiKey imageModel SimplePrompt (payloads (take 2 garments));
          req3 = Request apiKey textModel (AnalysisPrompt (map gtype garments))
                   (payloads garments)
      in case generateContent hst req1 of
           Reply ps \<Rightarrow>
             (case imageOfReply ps of
                Some dataUrl \<Rightarrow> ([req1], Some dataUrl)
              | None \<Rightarrow> ([req1, req3], None))
         | Failed \<Rightarrow>
             if length garments > 2 then
               (case generateContent hst req2 of
                  Reply ps \<Rightarrow>
                    (case imageOfReply ps of
                       Some dataUrl \<Rightarrow> ([req1, req2], Some dataUrl)
                     | None \<Rightarrow> ([req1, req2, req3], None))
                | Failed \<Rightarrow> ([req1, req2, req3], None))
             else ([req1, req3], None))"


section \<open>The compositor\<close>

text \<open>
  What a call of \<open>composeTryOnImage\<close> does besides returning, in the order it does
  it: a request to the service, a call of \<open>createStandardModelImage\<close>, a call of
  \<open>loadImage\<close> on a URL.
\<close>

datatype event = ServiceCalled request | RenderModel gender | ImageRequested string


text \<open>
  The result: the data URL of the service, or the PNG of the canvas (its size and what
  was drawn on it, in order).
\<close>

datatype composed = AiImage string | CanvasImage nat nat "drawOp list"

text \<open>
  The first loop: \<open>garmentImages\<close> receives the image of each garment that loads, in
  order; a garment that fails is skipped, so the list has no gaps.
\<close>

fun loadGarments :: "host \<Rightarrow> GarmentInput list \<Rightarrow> image list" where
  "loadGarments hst [] = []"
| "loadGarments hst (g # gs) =
     (case loadImage hst (url g) of
        Inr img \<Rightarrow> img # loadGarments hst gs
      | Inl e \<Rightarrow> loadGarments hst gs)"

text \<open>\<^verbatim>\<open>box.rotationDeg && box.rotationDeg !== 0\<close>\<close>

definition rotationSet :: "jsnum \<Rightarrow> bool" where
  "rotationSet r = (r \<noteq> Num 0 \<and> r \<noteq> NaN)"

text \<open>
  The body of the second loop at index \<open>i\<close> (below \<open>garments.length\<close>): the garment is
  \<open>garments[i]\<close>, the image is \<open>garmentImages[i]\<close>, and the index is skipped when it
  is not below \<open>garmentImages.length\<close>. The four target values are exact products
  here. As doubles they are the same for every box of the table but the dress, whose
  width and height come out as \<open>220.00000000000003\<close> and \<open>491.99999999999994\<close>, so
  that the browser's offscreen canvas for a dress is \<open>220\<close> by \<open>491\<close>, not \<open>492\<close>.
\<close>

definition drawStep ::
  "host \<Rightarrow> GarmentInput list \<Rightarrow> image list \<Rightarrow> nat \<Rightarrow> nat \<Rightarrow> ctx2d \<Rightarrow> nat \<Rightarrow> ctx2d" where
  "drawStep hst garments garmentImages cw chh ctx i =
     (if i \<ge> length garmentImages then ctx
      else
        (let garment = garments ! i;
             garmentImg = garmentImages ! i;
             box = garmentBox (gtype garment);
             targetW = real cw * box_width box;
             targetH = real chh * box_height box;
             targetX = real cw * box_x box;
             targetY = real chh * box_y box
         in if rotationSet (rotationDeg box) then
              ctxRestore
                (drawGarmentWithBgRemoval hst
                   (ctxRotateDeg
                      (ctxTranslate (ctxSave ctx) (targetX + targetW / 2) (targetY + targetH / 2))
                      (rotationDeg box))
                   garmentImg (- targetW / 2) (- targetH / 2) targetW targetH)
            else drawGarmentWithBgRemoval hst ctx garmentImg targetX targetY targetW targetH))"

text \<open>
  The canvas fallback of \<open>composeTryOnImage\<close>: render the model, load the garments,
  fail when none loaded, then draw the model and run the second loop over
  \<open>0 .. garments.length - 1\<close>.
\<close>

definition canvasComposition ::
  "host \<Rightarrow> GarmentInput list \<Rightarrow> gender \<Rightarrow> event list \<times> (error + composed)" where
  "canvasComposition hst garments gender =
     (case createStandardModelImage hst gender of
        Inl e \<Rightarrow> ([RenderModel gender], Inl e)
      | Inr modelImg \<Rightarrow>
          (let garmentImages = loadGarments hst garments;
               events = RenderModel gender # map (\<lambda>g. ImageRequested (url g)) garments;
               cw = img_width modelImg;
               chh = img_height modelImg
           in if length garmentImages = 0 then (events, Inl FailedToLoadAnyGarmentImages)
              else if \<not> canvas2d hst cw chh then (events, Inl CanvasNotSupported)
              else
                (let ctx0 = drawImage newContext (FromImage modelImg) 0 0 (real cw) (real chh);
                     ctx = foldl (drawStep hst garments garmentImages cw chh) ctx0
                             [0..<length garments]
                 in (events, Inr (CanvasImage cw chh (drawn ctx))))))"

text \<open>
  \<open>composeTryOnImage({garments, gender})\<close>: the service is tried when the key is set
  and the list is not empty; its image is returned as it is, and anything else falls
  through to the canvas.
\<close>

definition composeTryOnImage ::
  "host \<Rightarrow> GarmentInput list \<Rightarrow> gender \<Rightarrow> event list \<times> (error + composed)" where
  "composeTryOnImage hst garments gender =
     (case envApiKey hst of
        None \<Rightarrow> canvasComposition hst garments gender
      | Some apiKey \<Rightarrow>
          if apiKey \<noteq> [] \<and> length garments > 0 then
            (case generateAITryOn hst garments apiKey gender of
               (reqs, Some aiResult) \<Rightarrow> (map ServiceCalled reqs, Inr (AiImage aiResult))
             | (reqs, None) \<Rightarrow>
                 (case canvasComposition hst garments gender of
                    (events, r) \<Rightarrow> (map ServiceCalled reqs @ events, r)))
          else canvasComposition hst garments gender)"

section \<open>Placement estimated by the service\<close>

text \<open>
  \<open>stripCodeFences\<close>: the first match of the regular expression
  \<open>```[a-zA-Z]*\n([\s\S]*?)```\<close>, leftmost start and shortest body; its group, or the
  text itself when nothing matches.
\<close>

definition isLetter :: "char \<Rightarrow> bool" where
  "isLetter c =
     (let n = (of_char c :: nat) in (97 \<le> n \<and> n \<le> 122) \<or> (65 \<le> n \<and> n \<le> 90))"

fun untilFence :: "string \<Rightarrow> string option" where
  "untilFence [] = None"
| "untilFence (c # cs) =
     (if take 3 (c # cs) = ''```'' then Some []
      else map_option (\<lambda>m. c # m) (untilFence cs))"

definition fenceAt :: "string \<Rightarrow> string option" where
  "fenceAt t =
     (if take 3 t = ''```'' then
        (case dropWhile isLetter (drop 3 t) of
           [] \<Rightarrow> None
         | c # body \<Rightarrow> if c = CHR 0x0A then untilFence body else None)
      else None)"

fun firstFence :: "string \<Rightarrow> string option" where
  "firstFence [] = None"
| "firstFence (c # cs) =
     (case fenceAt (c # cs) of
        Some m \<Rightarrow> Some m
      | None \<Rightarrow> firstFence cs)"

definition stripCodeFences :: "string \<Rightarrow> string" where
  "stripCodeFences t = (case firstFence t of Some m \<Rightarrow> m | None \<Rightarrow> t)"

text \<open>
  Reading a property of the parsed value: \<open>None\<close> is \<open>undefined\<close>. Only an object
  has the properties read here. Reading a property of \<open>null\<close> throws a
  \<open>TypeError\<close>; the one caller is inside a \<open>try\<close>, and its model tests for
  \<open>null\<close> before it reads.
\<close>

fun getProp :: "json \<Rightarrow> string \<Rightarrow> json option" where
  "getProp (JObj kvs) k = map_of kvs k"
| "getProp j k = None"

text \<open>\<open>clamp01(v)\<close>: \<open>0\<close> for what is not a number and for \<open>NaN\<close>.\<close>

fun clamp01 :: "json option \<Rightarrow> real" where
  "clamp01 (Some (JNum (Num v))) = max 0 (min 1 v)"
| "clamp01 (Some (JNum PosInf)) = 1"
| "clamp01 (Some (JNum NegInf)) = 0"
| "clamp01 v = 0"

text \<open>\<^verbatim>\<open>typeof json.rotationDeg === "number" ? json.rotationDeg : 0\<close>\<close>

fun rotationOf :: "json option \<Rightarrow> jsnum" where
  "rotationOf (Some (JNum n)) = n"
| "rotationOf v = Num 0"

text \<open>The box built from the parsed value, before it is validated.\<close>

definition clampedBox :: "json \<Rightarrow> PlacementBox" where
  "clampedBox j =
     \<lparr>box_x = clamp01 (getProp j ''x''),
      box_y = clamp01 (getProp j ''y''),
      box_width = clamp01 (getProp j ''width''),
      box_height = clamp01 (getProp j ''height''),
      rotationDeg = rotationOf (getProp j ''rotationDeg'')\<rparr>"

text \<open>\<open>result.response.text()\<close>: the text parts of the reply, joined.\<close>

fun responseText :: "part list \<Rightarrow> string" where
  "responseText [] = []"
| "responseText (TextPart t # ps) = t @ responseText ps"
| "responseText (InlineData m d # ps) = responseText ps"

text \<open>
  \<open>estimateGarmentPlacement({garmentFile, garmentType, apiKey})\<close>. The key is the
  parameter or else the environment's; the request is outside the \<open>try\<close>, so its
  failure is thrown to the caller; inside the \<open>try\<close> a \<open>SyntaxError\<close> of
  \<open>JSON.parse\<close> and the \<open>TypeError\<close> of reading \<open>null.x\<close> are caught and give the
  table's box.
\<close>

definition estimateGarmentPlacement ::
  "host \<Rightarrow> File \<Rightarrow> string \<Rightarrow> string option \<Rightarrow> error + PlacementBox" where
  "estimateGarmentPlacement hst garmentFile garmentType apiKey =
     (case (if keyTruthy apiKey then apiKey else envApiKey hst) of
        None \<Rightarrow> Inl MissingApiKey
      | Some key \<Rightarrow>
          if key = [] then Inl MissingApiKey
          else
            (case generateContent hst
                    (Request key textModel (PlacementPrompt garmentType)
                       [fileToBase64 garmentFile]) of
               Failed \<Rightarrow> Inl ServiceError
             | Reply ps \<Rightarrow>
                 (case parseJSON hst (stripCodeFences (responseText ps)) of
                    None \<Rightarrow> Inr (getDefaultBox garmentType)
                  | Some j \<Rightarrow>
                      if j = JNull then Inr (getDefaultBox garmentType)
                      else if \<not> isValidBox (clampedBox j) then Inr (getDefaultBox garmentType)
                      else Inr (clampedBox j))))"

section \<open>Reading a result\<close>

text \<open>
  The draws of a result (none for an error or the service's image), the rectangle of a
  draw, and the rectangle of a box on a canvas of \<open>cw\<close> by \<open>chh\<close> as the second loop
  computes it (\<open>targetX\<close>, \<open>targetY\<close>, \<open>targetW\<close>, \<open>targetH\<close>).
\<close>

definition drawnOps :: "error + composed \<Rightarrow> drawOp list" where
  "drawnOps r = (case r of Inr (CanvasImage w h ops) \<Rightarrow> ops | Inr (AiImage u) \<Rightarrow> [] | Inl e \<Rightarrow> [])"

definition opRect :: "drawOp \<Rightarrow> real \<times> real \<times> real \<times> real" where
  "opRect d = (op_x d, op_y d, op_w d, op_h d)"

definition boxRect :: "nat \<Rightarrow> nat \<Rightarrow> PlacementBox \<Rightarrow> real \<times> real \<times> real \<times> real" where
  "boxRect cw chh box =
     (real cw * box_x box, real chh * box_y box, real cw * box_width box, real chh * box_height box)"

text \<open>
  What \<open>drawGarmentWithBgRemoval\<close> paints for an image and a target size: the stripped
  offscreen canvas, or the image itself when the offscreen canvas has no context.
\<close>

definition garmentSource :: "host \<Rightarrow> image \<Rightarrow> real \<Rightarrow> real \<Rightarrow> drawSource" where
  "garmentSource hst img w h =
     (if canvas2d hst (offscreenSize w) (offscreenSize h) then
        FromCanvas (offscreenSize w) (offscreenSize h)
          (stripData (rasterize hst img (offscreenSize w) (offscreenSize h)))
      else FromImage img)"


definition drawSummary :: "drawOp \<Rightarrow> drawSource \<times> real \<times> real \<times> real \<times> real" where
  "drawSummary d = (op_source d, opRect d)"

text \<open>The image \<open>createStandardModelImage\<close> resolves with.\<close>

definition modelImage :: "gender \<Rightarrow> image" where
  "modelImage gender =
     \<lparr>img_width = 400, img_height = 600, img_content = Rendered (modelShapes 400 600 gender)\<rparr>"

section \<open>Hosts and inputs for the examples\<close>

definition shirtImage :: image where
  "shirtImage = \<lparr>img_width = 2, img_height = 1, img_content = Decoded ''blob:shirt''\<rparr>"

definition shoeImage :: image where
  "shoeImage = \<lparr>img_width = 1, img_height = 1, img_content = Decoded ''blob:shoe''\<rparr>"

text \<open>
  A host with no API key, a canvas for every size, and two URLs that load; every other
  URL fails, the service is down and no text parses. The shoe rasterizes to one dark
  opaque pixel, the shirt to a white pixel and a blue one.
\<close>

definition plainHost :: host where
  "plainHost =
     \<lparr>envApiKey = None,
      decode = (\<lambda>u. if u = ''blob:shirt'' then Some shirtImage
                     else if u = ''blob:shoe'' then Some shoeImage else None),
      canvas2d = (\<lambda>w h. True),
      rasterize = (\<lambda>img w h. if img_content img = Decoded ''blob:shoe''
                              then [40, 40, 40, 255]
                              else [255, 255, 255, 255, 10, 20, 200, 255]),
      generateContent = (\<lambda>r. Failed),
      parseJSON = (\<lambda>t. None)\<rparr>"

text \<open>The same host, but only a canvas of \<open>400\<close> by \<open>600\<close> gets a 2D context.\<close>

definition mainCanvasOnlyHost :: host where
  "mainCanvasOnlyHost = plainHost\<lparr>canvas2d := (\<lambda>w h. w = 400 \<and> h = 600)\<rparr>"

definition pngFile :: File where
  "pngFile = \<lparr>file_type = ''image/png'', file_bytes = [137, 80, 78, 71]\<rparr>"

definition brokenTop :: GarmentInput where
  "brokenTop = \<lparr>url = ''blob:gone'', gtype = ''top'', gfile = pngFile\<rparr>"

definition goodShoe :: GarmentInput where
  "goodShoe = \<lparr>url = ''blob:shoe'', gtype = ''footwear'', gfile = pngFile\<rparr>"

definition goodShirt :: GarmentInput where
  "goodShirt = \<lparr>url = ''blob:shirt'', gtype = ''top'', gfile = pngFile\<rparr>"


text \<open>
  A host with a key whose service answers every request with the JSON text
  \<open>{"x": 5, "y": 0.25, "width": 0.5, "height": 0.5}\<close>, parsed as \<open>JSON.parse\<close>
  parses it (the four numbers are doubles as they stand).
\<close>

definition quoted :: "string \<Rightarrow> string" where
  "quoted t = CHR 0x22 # t @ [CHR 0x22]"

definition overshootText :: string where
  "overshootText =
     ''{'' @ quoted ''x'' @ '': 5, '' @ quoted ''y'' @ '': 0.25, '' @ quoted ''width'' @ '': 0.5, '' @
     quoted ''height'' @ '': 0.5}''"

definition overshootJson :: json where
  "overshootJson =
     JObj [(''x'', JNum (Num 5)), (''y'', JNum (Num 0.25)), (''width'', JNum (Num 0.5)),
           (''height'', JNum (Num 0.5))]"

definition overshootHost :: host where
  "overshootHost =
     plainHost\<lparr>envApiKey := Some ''key'',
               generateContent := (\<lambda>r. Reply [TextPart overshootText]),
               parseJSON := (\<lambda>t. if t = overshootText then Some overshootJson else None)\<rparr>"

text \<open>
  The same for the text
  \<open>{"x": 0.25, "y": 0.25, "width": 0.7999999999999999, "height": 0.025}\<close>. The
  double \<open>JSON.parse\<close> reads for \<open>0.7999999999999999\<close> is
  \<open>7205759403792793 / 2 ^ 53\<close>, the double below that of \<open>0.8\<close>, and the one for
  \<open>0.025\<close> is \<open>3602879701896397 / 2 ^ 57\<close>.
\<close>

definition edgeWidth :: real where
  "edgeWidth = 7205759403792793 / 2 ^ 53"

definition edgeHeight :: real where
  "edgeHeight = 3602879701896397 / 2 ^ 57"

definition edgeText :: string where
  "edgeText =
     ''{'' @ quoted ''x'' @ '': 0.25, '' @ quoted ''y'' @ '': 0.25, '' @ quoted ''width'' @
     '': 0.7999999999999999, '' @ quoted ''height'' @ '': 0.025}''"

definition edgeJson :: json where
  "edgeJson =
     JObj [(''x'', JNum (Num 0.25)), (''y'', JNum (Num 0.25)), (''width'', JNum (Num edgeWidth)),
           (''height'', JNum (Num edgeHeight))]"

definition edgeHost :: host where
  "edgeHost =
     plainHost\<lparr>envApiKey := Some ''key'',
               generateContent := (\<lambda>r. Reply [TextPart edgeText]),
               parseJSON := (\<lambda>t. if t = edgeText then Some edgeJson else None)\<rparr>"

text \<open>The same, with an answer that is not JSON.\<close>

definition chattyHost :: host where
  "chattyHost =
     plainHost\<lparr>envApiKey := Some ''key'',
               generateContent := (\<lambda>r. Reply [TextPart ''Sorry, I cannot help with that.''])\<rparr>"

section \<open>Properties of the placement table\<close>

lemma garmentBox_eq: "garmentBox c = getDefaultBox c"
  by (simp add: garmentBox_def getDefaultBox_def)

text \<open>
  Claim C3, as the code has it. \<open>getDefaultBox\<close> returns the specification's box for each
  of the six categories; the string \<open>tshirt\<close>, which is not one of the six, is an alias
  of \<open>top\<close>; every other string gets the default box. Whatever the string, the four
  fractions of the returned box lie in \<open>[0, 1]\<close> and width times height is at least
  \<open>0.02\<close>, and the switch inside \<open>composeTryOnImage\<close> returns the same box. The
  lookup reads nothing but its argument, so it is a function: equal arguments give equal
  boxes.
\<close>

theorem placement_table:
  "getDefaultBox ''dress'' =
     \<lparr>box_x = 0.225, box_y = 0.08, box_width = 0.55, box_height = 0.82, rotationDeg = Num 0\<rparr> \<and>
   getDefaultBox ''top'' =
     \<lparr>box_x = 0.25, box_y = 0.18, box_width = 0.5, box_height = 0.4, rotationDeg = Num 0\<rparr> \<and>
   getDefaultBox ''pants'' =
     \<lparr>box_x = 0.25, box_y = 0.35, box_width = 0.5, box_height = 0.45, rotationDeg = Num 0\<rparr> \<and>
   getDefaultBox ''shorts'' =
     \<lparr>box_x = 0.25, box_y = 0.35, box_width = 0.5, box_height = 0.25, rotationDeg = Num 0\<rparr> \<and>
   getDefaultBox ''footwear'' =
     \<lparr>box_x = 0.35, box_y = 0.78, box_width = 0.3, box_height = 0.18, rotationDeg = Num 0\<rparr> \<and>
   getDefaultBox ''accessory'' =
     \<lparr>box_x = 0.4, box_y = 0.1, box_width = 0.2, box_height = 0.2, rotationDeg = Num 0\<rparr> \<and>
   getDefaultBox ''tshirt'' = getDefaultBox ''top'' \<and>
   (c \<notin> set categories \<and> c \<noteq> ''tshirt'' \<longrightarrow> getDefaultBox c = defaultBox) \<and>
   fractions_in_unit (getDefaultBox c) \<and>
   box_width (getDefaultBox c) * box_height (getDefaultBox c) \<ge> 0.02 \<and>
   garmentBox c = getDefaultBox c"
  by (simp add: getDefaultBox_def garmentBox_def defaultBox_def categories_def fractions_in_unit_def)

text \<open>The theorem at the unrecognized string \<open>scarf\<close>.\<close>

theorem placement_table_witness:
  "''scarf'' \<notin> set categories \<and> ''scarf'' \<noteq> ''tshirt'' \<and> getDefaultBox ''scarf'' = defaultBox \<and>
   fractions_in_unit (getDefaultBox ''scarf'') \<and> garmentBox ''scarf'' = getDefaultBox ''scarf''"
proof -
  have h: "''scarf'' \<notin> set categories \<and> ''scarf'' \<noteq> ''tshirt''"
    by (simp add: categories_def)
  from placement_table [of "''scarf''"] h show ?thesis by blast
qed

text \<open>
  Claim C3 as stated fails at \<open>tshirt\<close>: it is none of the six categories, and the
  lookup returns the box of \<open>top\<close>, not the default box.
\<close>

theorem placement_unrecognized_counterexample:
  "''tshirt'' \<notin> set categories \<and> getDefaultBox ''tshirt'' \<noteq> defaultBox"
  by (simp add: categories_def getDefaultBox_def defaultBox_def)

section \<open>Properties of the background stripper\<close>

lemma unat_toUint8Clamped: "0 \<le> k \<Longrightarrow> k \<le> 255 \<Longrightarrow> unat (toUint8Clamped k) = nat k"
  by (simp add: toUint8Clamped_def unat_eq_nat_uint uint_word_of_int take_bit_eq_mod)

lemma byte_le: "unat (a::byte) \<le> 255"
proof -
  have "unat a < 2 ^ 8" using unsigned_less [of a, where ?'a = nat] by simp
  then show ?thesis by simp
qed

lemma scaled_bounds_nat:
  "n \<le> 255 \<Longrightarrow> 0 \<le> round (real n * 0.99) \<and> round (real n * 0.99) \<le> 255"
proof -
  assume "n \<le> 255"
  then have "real n \<le> 255" by simp
  then have "real n * 0.99 + 1/2 < 256" by simp
  then have "round (real n * 0.99) < 256" unfolding round_def by (simp add: floor_less_iff)
  moreover have "0 \<le> round (real n * 0.99)" unfolding round_def by simp
  ultimately show ?thesis by simp
qed

lemma scaled_zero_nat: "round (real n * 0.99) = 0 \<longleftrightarrow> n = 0"
proof
  assume h: "round (real n * 0.99) = 0"
  show "n = 0"
  proof (rule ccontr)
    assume "n \<noteq> 0"
    then have "1 \<le> real n" by simp
    then have "1 \<le> real n * 0.99 + 1/2" by simp
    then have "1 \<le> round (real n * 0.99)" unfolding round_def by (simp add: le_floor_iff)
    with h show False by simp
  qed
next
  assume "n = 0" then show "round (real n * 0.99) = 0" by simp
qed

lemma scaled_bounds:
  "0 \<le> round (real (unat (a::byte)) * 0.99) \<and> round (real (unat a) * 0.99) \<le> 255"
  by (rule scaled_bounds_nat) (rule byte_le)

lemma scaled_zero_iff: "round (real (unat (a::byte)) * 0.99) = 0 \<longleftrightarrow> a = 0"
proof -
  have "round (real (unat a) * 0.99) = 0 \<longleftrightarrow> unat a = 0" by (rule scaled_zero_nat)
  also have "\<dots> \<longleftrightarrow> a = 0" by (rule unat_eq_0)
  finally show ?thesis .
qed

lemma alpha_kept:
  "unat (toUint8Clamped (min 255 (round (real (unat (a::byte)) * 0.99)))) =
   nat (round (real (unat a) * 0.99))"
proof -
  have b: "0 \<le> round (real (unat a) * 0.99)" "round (real (unat a) * 0.99) \<le> 255"
    using scaled_bounds [of a] by blast+
  have "min 255 (round (real (unat a) * 0.99)) = round (real (unat a) * 0.99)"
    using b(2) by (rule min_absorb2)
  then show ?thesis using unat_toUint8Clamped [OF b] by (simp only:)
qed


lemma stripAlpha_bg: "isBackground r g b \<Longrightarrow> stripAlpha r g b a = 0"
  by (auto simp add: stripAlpha_def isBackground_def luma_def spread_def maxChannel_def
      minChannel_def Let_def simp del: of_nat_unat)

lemma stripAlpha_fg:
  "\<not> isBackground r g b \<Longrightarrow>
   stripAlpha r g b a = toUint8Clamped (min 255 (round (real (unat a) * 0.99)))"
  by (auto simp add: stripAlpha_def isBackground_def luma_def spread_def maxChannel_def
      minChannel_def Let_def simp del: of_nat_unat)

lemma saturated_real:
  fixes R G B :: real
  assumes "0 \<le> R" "0 \<le> G" "0 \<le> B" "min R (min G B) = 0"
    "max R (max G B) - min R (min G B) < 25"
  shows "0.299 * R + 0.587 * G + 0.114 * B \<le> 210"
proof -
  have "R < 25" "G < 25" "B < 25" using assms by linarith+
  then show ?thesis by simp
qed

lemma bright_real:
  fixes R G B :: real
  assumes "245 < R" "245 < G" "245 < B"
  shows "245 < 0.299 * R + 0.587 * G + 0.114 * B"
  using assms by simp

lemma saturated_not_bg: "minChannel r g b = 0 \<Longrightarrow> \<not> isBackground r g b"
proof
  assume m: "minChannel r g b = 0" and bg: "isBackground r g b"
  have nn: "0 \<le> real (unat r)" "0 \<le> real (unat g)" "0 \<le> real (unat b)"
    by (rule of_nat_0_le_iff)+
  have m': "min (real (unat r)) (min (real (unat g)) (real (unat b))) = 0"
    using m unfolding minChannel_def .
  from bg consider
      (a) "luma r g b > 210" "spread r g b < 25"
    | (b) "unat r > 245" "unat g > 245" "unat b > 245"
    unfolding isBackground_def by linarith
  then show False
  proof cases
    case a
    have "spread r g b < 25 \<Longrightarrow> luma r g b \<le> 210"
      unfolding spread_def luma_def maxChannel_def minChannel_def
      using saturated_real [OF nn m'] .
    with a show False by simp
  next
    case b
    then have "real (unat r) > 245" by (simp del: of_nat_unat)
    moreover have "real (unat r) \<ge> 0" "real (unat g) \<ge> 0" "real (unat b) \<ge> 0" by (rule nn)+
    moreover from b have "real (unat g) > 245" "real (unat b) > 245" by (simp_all del: of_nat_unat)
    ultimately show False using m' by linarith
  qed
qed

lemma dim_not_bg: "luma r g b \<le> 210 \<Longrightarrow> \<not> isBackground r g b"
proof
  assume d: "luma r g b \<le> 210" and bg: "isBackground r g b"
  from bg d have b: "unat r > 245" "unat g > 245" "unat b > 245"
    unfolding isBackground_def by linarith+
  then have "real (unat r) > 245" "real (unat g) > 245" "real (unat b) > 245"
    by (simp_all del: of_nat_unat)
  then have "luma r g b > 245" unfolding luma_def by (rule bright_real)
  with d show False by simp
qed

text \<open>
  Claim C4, as the code has it. With \<open>L\<close>, \<open>C\<close> and \<open>S\<close> as the specification
  defines them, the alpha stored for a pixel is \<open>0\<close> when one of the three background
  tests holds and \<open>min 255 (round (0.99 A))\<close> otherwise; so the stored alpha is \<open>0\<close>
  exactly when a background test holds or the input alpha is \<open>0\<close>. A pixel of input
  alpha \<open>0\<close> keeps alpha \<open>0\<close>; a fully saturated pixel (least channel \<open>0\<close>) and
  any pixel of luma at most \<open>210\<close> keep their alpha scaled by \<open>0.99\<close>. The loop
  stores this value for each pixel and leaves R, G and B alone.
\<close>

theorem stripAlpha_classifies:
  "unat (stripAlpha r g b a) =
     (if isBackground r g b then 0 else nat (min 255 (round (0.99 * real (unat a))))) \<and>
   (stripAlpha r g b a = 0 \<longleftrightarrow> isBackground r g b \<or> a = 0) \<and>
   stripAlpha r g b 0 = 0 \<and>
   (minChannel r g b = 0 \<or> luma r g b \<le> 210 \<longrightarrow>
      unat (stripAlpha r g b a) = nat (round (0.99 * real (unat a)))) \<and>
   stripData (r # g # b # a # rest) = r # g # b # stripAlpha r g b a # stripData rest"
proof -
  have comm: "0.99 * real (unat a) = real (unat a) * 0.99" by (rule mult.commute)
  have le: "round (real (unat a) * 0.99) \<le> 255" using scaled_bounds [of a] by blast
  have mn: "min 255 (round (real (unat a) * 0.99)) = round (real (unat a) * 0.99)"
    using le by (rule min_absorb2)
  have fg: "unat (stripAlpha r g b a) = nat (round (real (unat a) * 0.99))"
    if nb: "\<not> isBackground r g b"
    unfolding stripAlpha_fg [OF nb] by (rule alpha_kept)
  have c1: "unat (stripAlpha r g b a) =
     (if isBackground r g b then 0 else nat (min 255 (round (0.99 * real (unat a)))))"
  proof (cases "isBackground r g b")
    case True
    then show ?thesis using stripAlpha_bg [of r g b a] by simp
  next
    case False
    then show ?thesis using fg unfolding comm mn by simp
  qed
  have c2: "stripAlpha r g b a = 0 \<longleftrightarrow> isBackground r g b \<or> a = 0"
  proof (cases "isBackground r g b")
    case True
    then show ?thesis using stripAlpha_bg [of r g b a] by simp
  next
    case False
    have "stripAlpha r g b a = 0 \<longleftrightarrow> unat (stripAlpha r g b a) = 0" by (simp add: unat_eq_0)
    also have "\<dots> \<longleftrightarrow> nat (round (real (unat a) * 0.99)) = 0" using fg [OF False] by (simp only:)
    also have "\<dots> \<longleftrightarrow> round (real (unat a) * 0.99) = 0" using scaled_bounds [of a] by linarith
    also have "\<dots> \<longleftrightarrow> a = 0" by (rule scaled_zero_iff)
    finally show ?thesis using False by simp
  qed
  have c3: "stripAlpha r g b 0 = 0"
    by (simp add: stripAlpha_def Let_def toUint8Clamped_def)
  have c4: "minChannel r g b = 0 \<or> luma r g b \<le> 210 \<longrightarrow>
      unat (stripAlpha r g b a) = nat (round (0.99 * real (unat a)))"
    using saturated_not_bg [of r g b] dim_not_bg [of r g b] fg unfolding comm by blast
  have c5: "stripData (r # g # b # a # rest) = r # g # b # stripAlpha r g b a # stripData rest"
    by simp
  from c1 c2 c3 c4 c5 show ?thesis by blast
qed

text \<open>The theorem at opaque-ish pure red (kept, \<open>200\<close> becomes \<open>198\<close>) and at near-white (cleared).\<close>

theorem stripAlpha_classifies_witness:
  "minChannel 255 0 0 = 0 \<and> \<not> isBackground 255 0 0 \<and> unat (stripAlpha 255 0 0 200) = 198 \<and>
   isBackground 250 250 250 \<and> stripAlpha 250 250 250 200 = 0"
proof -
  have m: "minChannel 255 0 0 = 0" by (simp add: minChannel_def)
  have n: "\<not> isBackground 255 0 0"
    by (simp add: isBackground_def luma_def spread_def maxChannel_def minChannel_def)
  have bgw: "isBackground 250 250 250"
    by (simp add: isBackground_def luma_def spread_def maxChannel_def minChannel_def)
  have r: "nat (round (0.99 * real (unat (200::byte)))) = 198" by (simp add: round_def)
  from stripAlpha_classifies [of 255 0 0 200 "[]"] m
  have "unat (stripAlpha 255 0 0 200) = nat (round (0.99 * real (unat (200::byte))))" by blast
  with r have a: "unat (stripAlpha 255 0 0 200) = 198" by (simp only:)
  from stripAlpha_classifies [of 250 250 250 200 "[]"] bgw
  have b: "stripAlpha 250 250 250 200 = 0" by blast
  from m n a bgw b show ?thesis by blast
qed

text \<open>
  Claim C4 as stated fails at a fully transparent red pixel: no background test holds,
  and the stored alpha is \<open>0\<close> all the same.
\<close>

theorem stripAlpha_transparent_counterexample:
  "\<not> isBackground 200 30 30 \<and> stripAlpha 200 30 30 0 = 0"
  by (simp add: isBackground_def luma_def spread_def maxChannel_def minChannel_def
      stripAlpha_def toUint8Clamped_def)

section \<open>Properties of the garment draw\<close>

text \<open>
  Claim C9, as the code has it. When the offscreen canvas has a 2D context, the garment
  is drawn once, from the stripped offscreen canvas, under the shadow
  \<open>rgba(0, 0, 0, 0.15)\<close> with blur \<open>5\<close> and offset \<open>(2, 3)\<close> at global alpha
  \<open>0.98\<close>, and on return the four shadow fields are \<open>transparent\<close>, \<open>0\<close>, \<open>0\<close>,
  \<open>0\<close>. When it has none, the image itself is drawn once at global alpha \<open>0.95\<close>
  under whatever shadow the context had, and the shadow fields are left as they were.
\<close>

theorem garment_draw_shadow:
  "(canvas2d hst (offscreenSize w) (offscreenSize h) \<longrightarrow>
      drawn (drawGarmentWithBgRemoval hst ctx img x y w h) =
        drawn ctx @
        [\<lparr>op_source = FromCanvas (offscreenSize w) (offscreenSize h)
             (stripData (rasterize hst img (offscreenSize w) (offscreenSize h))),
          op_x = x, op_y = y, op_w = w, op_h = h, op_alpha = 0.98,
          op_shadowColor = ''rgba(0, 0, 0, 0.15)'', op_shadowBlur = 5,
          op_shadowOffsetX = 2, op_shadowOffsetY = 3, op_transform = transform ctx\<rparr>] \<and>
      shadowColor (drawGarmentWithBgRemoval hst ctx img x y w h) = ''transparent'' \<and>
      shadowBlur (drawGarmentWithBgRemoval hst ctx img x y w h) = 0 \<and>
      shadowOffsetX (drawGarmentWithBgRemoval hst ctx img x y w h) = 0 \<and>
      shadowOffsetY (drawGarmentWithBgRemoval hst ctx img x y w h) = 0) \<and>
   (\<not> canvas2d hst (offscreenSize w) (offscreenSize h) \<longrightarrow>
      drawn (drawGarmentWithBgRemoval hst ctx img x y w h) =
        drawn ctx @
        [\<lparr>op_source = FromImage img,
          op_x = x, op_y = y, op_w = w, op_h = h, op_alpha = 0.95,
          op_shadowColor = shadowColor ctx, op_shadowBlur = shadowBlur ctx,
          op_shadowOffsetX = shadowOffsetX ctx, op_shadowOffsetY = shadowOffsetY ctx,
          op_transform = transform ctx\<rparr>] \<and>
      shadowColor (drawGarmentWithBgRemoval hst ctx img x y w h) = shadowColor ctx \<and>
      shadowBlur (drawGarmentWithBgRemoval hst ctx img x y w h) = shadowBlur ctx \<and>
      shadowOffsetX (drawGarmentWithBgRemoval hst ctx img x y w h) = shadowOffsetX ctx \<and>
      shadowOffsetY (drawGarmentWithBgRemoval hst ctx img x y w h) = shadowOffsetY ctx)"
  by (simp add: drawGarmentWithBgRemoval_def drawImage_def Let_def)

text \<open>The theorem on a host with an offscreen context and on one without.\<close>

theorem garment_draw_shadow_witness:
  "canvas2d plainHost (offscreenSize 200) (offscreenSize 240) \<and>
   map op_shadowBlur (drawn (drawGarmentWithBgRemoval plainHost newContext shirtImage 100 108 200 240)) = [5] \<and>
   map op_alpha (drawn (drawGarmentWithBgRemoval plainHost newContext shirtImage 100 108 200 240)) = [0.98] \<and>
   shadowBlur (drawGarmentWithBgRemoval plainHost newContext shirtImage 100 108 200 240) = 0 \<and>
   \<not> canvas2d mainCanvasOnlyHost (offscreenSize 200) (offscreenSize 240) \<and>
   map op_alpha (drawn (drawGarmentWithBgRemoval mainCanvasOnlyHost newContext shirtImage 100 108 200 240)) = [0.95]"
proof -
  have a: "canvas2d plainHost (offscreenSize 200) (offscreenSize 240)"
    by (simp add: plainHost_def)
  have b: "\<not> canvas2d mainCanvasOnlyHost (offscreenSize 200) (offscreenSize 240)"
    by (simp add: mainCanvasOnlyHost_def plainHost_def offscreenSize_def)
  have n: "drawn newContext = []" by (simp add: newContext_def)
  from garment_draw_shadow [of plainHost 200 240 newContext shirtImage 100 108] a n
  have c: "map op_shadowBlur (drawn (drawGarmentWithBgRemoval plainHost newContext shirtImage 100 108 200 240)) = [5] \<and>
   map op_alpha (drawn (drawGarmentWithBgRemoval plainHost newContext shirtImage 100 108 200 240)) = [0.98] \<and>
   shadowBlur (drawGarmentWithBgRemoval plainHost newContext shirtImage 100 108 200 240) = 0"
    by simp
  from garment_draw_shadow [of mainCanvasOnlyHost 200 240 newContext shirtImage 100 108] b n
  have d: "map op_alpha (drawn (drawGarmentWithBgRemoval mainCanvasOnlyHost newContext shirtImage 100 108 200 240)) = [0.95]"
    by simp
  from a b c d show ?thesis by blast
qed

text \<open>
  Claim C9 as stated fails when the offscreen canvas has no context: the garment is
  drawn at alpha \<open>0.95\<close>, not \<open>0.98\<close>, and with the default shadow (transparent
  black, no blur, no offset), not the drop shadow.
\<close>

theorem garment_draw_fallback_counterexample:
  "map op_alpha (drawn (drawGarmentWithBgRemoval mainCanvasOnlyHost newContext shirtImage 100 108 200 240)) = [0.95] \<and>
   map op_shadowColor (drawn (drawGarmentWithBgRemoval mainCanvasOnlyHost newContext shirtImage 100 108 200 240)) = [''rgba(0, 0, 0, 0)''] \<and>
   map op_shadowBlur (drawn (drawGarmentWithBgRemoval mainCanvasOnlyHost newContext shirtImage 100 108 200 240)) = [0] \<and>
   map op_shadowOffsetX (drawn (drawGarmentWithBgRemoval mainCanvasOnlyHost newContext shirtImage 100 108 200 240)) = [0] \<and>
   map op_shadowOffsetY (drawn (drawGarmentWithBgRemoval mainCanvasOnlyHost newContext shirtImage 100 108 200 240)) = [0]"
  by (simp add: drawGarmentWithBgRemoval_def drawImage_def Let_def mainCanvasOnlyHost_def
      plainHost_def offscreenSize_def newContext_def)

text \<open>
  Claim C10. When \<open>drawGarmentWithBgRemoval\<close> returns, \<open>globalAlpha\<close> of the context
  is \<open>0.98\<close>, or \<open>0.95\<close> when the offscreen canvas had no context, whatever it was
  before; a \<open>drawImage\<close> on the returned context is painted at that alpha. In the
  main branch the returned context is the one drawn on with only the four shadow fields
  set back.
\<close>

theorem garment_draw_leaves_alpha:
  "globalAlpha (drawGarmentWithBgRemoval hst ctx img x y w h) =
     (if canvas2d hst (offscreenSize w) (offscreenSize h) then 0.98 else 0.95) \<and>
   op_alpha (last (drawn (drawImage (drawGarmentWithBgRemoval hst ctx img x y w h) src x' y' w' h'))) =
     (if canvas2d hst (offscreenSize w) (offscreenSize h) then 0.98 else 0.95) \<and>
   (canvas2d hst (offscreenSize w) (offscreenSize h) \<longrightarrow>
      drawGarmentWithBgRemoval hst ctx img x y w h =
        (drawImage (ctx\<lparr>shadowColor := ''rgba(0, 0, 0, 0.15)'', shadowBlur := 5, shadowOffsetX := 2,
                         shadowOffsetY := 3, globalAlpha := 0.98\<rparr>)
           (FromCanvas (offscreenSize w) (offscreenSize h)
             (stripData (rasterize hst img (offscreenSize w) (offscreenSize h)))) x y w h)
        \<lparr>shadowColor := ''transparent'', shadowBlur := 0, shadowOffsetX := 0, shadowOffsetY := 0\<rparr>)"
  by (simp add: drawGarmentWithBgRemoval_def drawImage_def Let_def)

text \<open>The theorem on a new context, whose alpha is \<open>1\<close> before the call.\<close>

theorem garment_draw_leaves_alpha_witness:
  "canvas2d plainHost (offscreenSize 200) (offscreenSize 240) \<and>
   globalAlpha newContext = 1 \<and>
   globalAlpha (drawGarmentWithBgRemoval plainHost newContext shirtImage 100 108 200 240) = 0.98 \<and>
   globalAlpha (drawGarmentWithBgRemoval mainCanvasOnlyHost newContext shirtImage 100 108 200 240) = 0.95"
proof -
  have a: "canvas2d plainHost (offscreenSize 200) (offscreenSize 240)"
    by (simp add: plainHost_def)
  have b: "\<not> canvas2d mainCanvasOnlyHost (offscreenSize 200) (offscreenSize 240)"
    by (simp add: mainCanvasOnlyHost_def plainHost_def offscreenSize_def)
  have n: "globalAlpha newContext = 1" by (simp add: newContext_def)
  from garment_draw_leaves_alpha [of plainHost newContext shirtImage 100 108 200 240, THEN conjunct1] a
  have c: "globalAlpha (drawGarmentWithBgRemoval plainHost newContext shirtImage 100 108 200 240) = 0.98"
    by simp
  from garment_draw_leaves_alpha [of mainCanvasOnlyHost newContext shirtImage 100 108 200 240, THEN conjunct1] b
  have d: "globalAlpha (drawGarmentWithBgRemoval mainCanvasOnlyHost newContext shirtImage 100 108 200 240) = 0.95"
    by simp
  from a n c d show ?thesis by blast
qed

section \<open>Properties of the model renderer and the compositor\<close>

lemma garmentBox_rotation: "rotationDeg (garmentBox t) = Num 0"
  by (simp add: garmentBox_def)

lemma garmentBox_not_rotated: "\<not> rotationSet (rotationDeg (garmentBox t))"
  by (simp add: garmentBox_rotation rotationSet_def)

lemma createStandardModelImage_ok:
  "canvas2d hst 400 600 \<Longrightarrow> createStandardModelImage hst gender = Inr (modelImage gender)"
  by (simp add: createStandardModelImage_def modelImage_def)

lemma createStandardModelImage_fail:
  "\<not> canvas2d hst 400 600 \<Longrightarrow> createStandardModelImage hst gender = Inl CanvasNotSupported"
  by (simp add: createStandardModelImage_def)

lemma compose_no_key:
  "\<not> keyTruthy (envApiKey hst) \<Longrightarrow>
   composeTryOnImage hst garments gender = canvasComposition hst garments gender"
  by (simp add: composeTryOnImage_def keyTruthy_def split: option.splits)

lemma compose_empty: "composeTryOnImage hst [] gender = canvasComposition hst [] gender"
  by (simp add: composeTryOnImage_def split: option.splits)

text \<open>
  Claim C7. With a 2D context, \<open>createStandardModelImage\<close> resolves for \<open>male\<close> and
  for \<open>female\<close> with an image of \<open>400\<close> by \<open>600\<close>. The shoulder polygon is one of
  the painted shapes; its lower edge (\<open>y = 170\<close>) reaches \<open>42\<close> pixels either side
  of the centre for \<open>male\<close> and \<open>38\<close> for \<open>female\<close>, a difference of \<open>4\<close>. (Its
  upper edge reaches \<open>55\<close> and \<open>48\<close>.)
\<close>

theorem model_size_and_shoulders:
  "(canvas2d hst 400 600 \<longrightarrow>
      createStandardModelImage hst Male =
        Inr \<lparr>img_width = 400, img_height = 600, img_content = Rendered (modelShapes 400 600 Male)\<rparr> \<and>
      createStandardModelImage hst Female =
        Inr \<lparr>img_width = 400, img_height = 600, img_content = Rendered (modelShapes 400 600 Female)\<rparr>) \<and>
   FillPolygon (Color ''#f4a261'') (shoulderPolygon 400 Male) \<in> set (modelShapes 400 600 Male) \<and>
   FillPolygon (Color ''#f4a261'') (shoulderPolygon 400 Female) \<in> set (modelShapes 400 600 Female) \<and>
   shoulderPolygon 400 Male = [(200 - 55, 145), (200 - 42, 170), (200 + 42, 170), (200 + 55, 145)] \<and>
   shoulderPolygon 400 Female = [(200 - 48, 145), (200 - 38, 170), (200 + 38, 170), (200 + 48, 145)] \<and>
   halfWidthAt 170 (shoulderPolygon 400 Male) = 42 \<and>
   halfWidthAt 170 (shoulderPolygon 400 Female) = 38 \<and>
   halfWidthAt 170 (shoulderPolygon 400 Male) = halfWidthAt 170 (shoulderPolygon 400 Female) + 4"
  by (simp add: createStandardModelImage_def modelShapes_def shoulderPolygon_def halfWidthAt_def
      Let_def)

text \<open>The theorem on a host that has a canvas.\<close>

theorem model_size_and_shoulders_witness:
  "canvas2d plainHost 400 600 \<and>
   createStandardModelImage plainHost Male =
     Inr \<lparr>img_width = 400, img_height = 600, img_content = Rendered (modelShapes 400 600 Male)\<rparr> \<and>
   createStandardModelImage plainHost Female =
     Inr \<lparr>img_width = 400, img_height = 600, img_content = Rendered (modelShapes 400 600 Female)\<rparr>"
proof -
  have a: "canvas2d plainHost 400 600" by (simp add: plainHost_def)
  from model_size_and_shoulders [of plainHost] a show ?thesis by blast
qed

text \<open>
  Claim C2, as the code has it. With an empty garment list, whatever the gender and
  whether or not a key is configured, \<open>composeTryOnImage\<close> sends nothing to the
  service, calls \<open>createStandardModelImage\<close> first, and then fails: with
  \<open>Failed to load any garment images\<close> when the host has a 2D canvas (the model has
  been rendered by then), with \<open>Canvas not supported\<close> from the renderer otherwise.
\<close>

theorem compose_empty_fails_after_render:
  "composeTryOnImage hst [] gender =
     ([RenderModel gender],
      Inl (if canvas2d hst 400 600 then FailedToLoadAnyGarmentImages else CanvasNotSupported)) \<and>
   (canvas2d hst 400 600 \<longrightarrow> createStandardModelImage hst gender = Inr (modelImage gender))"
  by (simp add: compose_empty canvasComposition_def createStandardModelImage_def modelImage_def)

text \<open>The theorem on a host that has a canvas.\<close>

theorem compose_empty_fails_after_render_witness:
  "canvas2d plainHost 400 600 \<and>
   composeTryOnImage plainHost [] AnyGender = ([RenderModel AnyGender], Inl FailedToLoadAnyGarmentImages) \<and>
   createStandardModelImage plainHost AnyGender = Inr (modelImage AnyGender)"
proof -
  have a: "canvas2d plainHost 400 600" by (simp add: plainHost_def)
  from compose_empty_fails_after_render [of plainHost AnyGender] a show ?thesis by simp
qed

text \<open>
  Claim C2 as stated fails: with no key and an empty list, the call to the procedural
  renderer is made, and succeeds, before the failure is raised.
\<close>

theorem compose_empty_renders_first_counterexample:
  "envApiKey plainHost = None \<and>
   fst (composeTryOnImage plainHost [] Female) = [RenderModel Female] \<and>
   snd (composeTryOnImage plainHost [] Female) = Inl FailedToLoadAnyGarmentImages \<and>
   createStandardModelImage plainHost Female = Inr (modelImage Female)"
  by (simp add: compose_empty canvasComposition_def createStandardModelImage_def modelImage_def
      plainHost_def)

text \<open>
  Claim C8. With no key configured, one garment whose image loads and a host with a 2D
  canvas, \<open>composeTryOnImage\<close> returns a canvas image of \<open>400\<close> by \<open>600\<close> (for
  \<open>female\<close> as for every gender): the model, then the garment in the box of its type.
\<close>

theorem compose_single_garment:
  "\<not> keyTruthy (envApiKey hst) \<Longrightarrow> decode hst (url g) = Some img \<Longrightarrow> canvas2d hst 400 600 \<Longrightarrow>
   composeTryOnImage hst [g] gender =
     ([RenderModel gender, ImageRequested (url g)],
      Inr (CanvasImage 400 600
        (drawn (drawGarmentWithBgRemoval hst
           (drawImage newContext (FromImage (modelImage gender)) 0 0 400 600) img
           (400 * box_x (garmentBox (gtype g))) (600 * box_y (garmentBox (gtype g)))
           (400 * box_width (garmentBox (gtype g))) (600 * box_height (garmentBox (gtype g)))))))"
  by (simp add: compose_no_key canvasComposition_def createStandardModelImage_ok loadImage_def
      modelImage_def drawStep_def garmentBox_not_rotated Let_def)

text \<open>The theorem for one shirt and \<open>female\<close>.\<close>

theorem compose_single_garment_witness:
  "\<not> keyTruthy (envApiKey plainHost) \<and> decode plainHost (url goodShirt) = Some shirtImage \<and>
   canvas2d plainHost 400 600 \<and>
   fst (composeTryOnImage plainHost [goodShirt] Female) =
     [RenderModel Female, ImageRequested ''blob:shirt''] \<and>
   (\<exists>ops. snd (composeTryOnImage plainHost [goodShirt] Female) = Inr (CanvasImage 400 600 ops))"
proof -
  have a: "\<not> keyTruthy (envApiKey plainHost)" by (simp add: plainHost_def keyTruthy_def)
  have b: "decode plainHost (url goodShirt) = Some shirtImage"
    by (simp add: plainHost_def goodShirt_def)
  have c: "canvas2d plainHost 400 600" by (simp add: plainHost_def)
  have u: "url goodShirt = ''blob:shirt''" by (simp add: goodShirt_def)
  from compose_single_garment [OF a b c, of Female] a b c u show ?thesis by simp
qed

text \<open>
  Claim C1 at a top that fails to load followed by a shoe that loads. The call returns a
  canvas image, but the shoe is painted in the rectangle of the box of \<open>top\<close>,
  \<open>(100, 108, 200, 240)\<close>, and not in that of the footwear box,
  \<open>(140, 468, 120, 108)\<close>: \<open>garmentImages\<close> has no gap for the failed top, and the
  second loop pairs \<open>garmentImages[i]\<close> with \<open>garments[i]\<close>.
\<close>

theorem compose_misplaces_after_failed_load:
  "decode plainHost (url brokenTop) = None \<and>
   decode plainHost (url goodShoe) = Some shoeImage \<and>
   fst (composeTryOnImage plainHost [brokenTop, goodShoe] Female) =
     [RenderModel Female, ImageRequested ''blob:gone'', ImageRequested ''blob:shoe''] \<and>
   map drawSummary (drawnOps (snd (composeTryOnImage plainHost [brokenTop, goodShoe] Female))) =
     [(FromImage (modelImage Female), 0, 0, 400, 600),
      (FromCanvas 200 240 [40, 40, 40, 252], 100, 108, 200, 240)] \<and>
   garmentSource plainHost shoeImage 200 240 = FromCanvas 200 240 [40, 40, 40, 252] \<and>
   boxRect 400 600 (garmentBox (gtype brokenTop)) = (100, 108, 200, 240) \<and>
   boxRect 400 600 (garmentBox (gtype goodShoe)) = (140, 468, 120, 108)"
  by (simp add: composeTryOnImage_def canvasComposition_def createStandardModelImage_def
      loadImage_def plainHost_def brokenTop_def goodShoe_def shoeImage_def modelImage_def
      drawStep_def garmentBox_def rotationSet_def drawGarmentWithBgRemoval_def drawImage_def
      offscreenSize_def newContext_def drawnOps_def drawSummary_def opRect_def boxRect_def
      garmentSource_def stripAlpha_def toUint8Clamped_def round_def Let_def)





















section \<open>Properties of the double product\<close>

text \<open>
  Rounding is monotone across the integers and never crosses a power of two; the area
  bound \<open>0.02\<close> is the double \<open>5764607523034235 / 2 ^ 58\<close>.
\<close>

lemma roundHalfEven_ge: "of_int n \<le> m \<Longrightarrow> n \<le> roundHalfEven m"
proof -
  assume "of_int n \<le> m"
  then have "n \<le> \<lfloor>m\<rfloor>" by (simp add: le_floor_iff)
  then show ?thesis by (simp add: roundHalfEven_def Let_def)
qed

lemma roundHalfEven_le: "m \<le> of_int n \<Longrightarrow> roundHalfEven m \<le> n"
proof (cases "m = of_int n")
  case True
  then show ?thesis by (simp add: roundHalfEven_def Let_def)
next
  case False
  assume "m \<le> of_int n"
  with False have "m < of_int n" by simp
  then have "\<lfloor>m\<rfloor> < n" by (simp add: floor_less_iff)
  then show ?thesis by (simp add: roundHalfEven_def Let_def)
qed

lemma binade:
  assumes "0 < z"
  shows "2 powi \<lfloor>log 2 z\<rfloor> \<le> z \<and> z < 2 powi (\<lfloor>log 2 z\<rfloor> + 1)"
proof -
  have "2 powr (real_of_int \<lfloor>log 2 z\<rfloor>) \<le> z \<and> z < 2 powr (real_of_int (\<lfloor>log 2 z\<rfloor> + 1))"
    using floor_log_eq_powr_iff [of z 2 "\<lfloor>log 2 z\<rfloor>"] assms by simp
  then show ?thesis by (simp only: powr_real_of_int' [of 2, simplified])
qed

lemma binade_eq:
  assumes "0 < z" "2 powi k \<le> z" "z < 2 powi (k + 1)"
  shows "\<lfloor>log 2 z\<rfloor> = k"
proof -
  have "2 powr (real_of_int k) \<le> z \<and> z < 2 powr (real_of_int (k + 1))"
    using assms by (simp only: powr_real_of_int' [of 2, simplified])
  then show ?thesis using floor_log_eq_powr_iff [of z 2 k] assms(1) by simp
qed


lemma doubleOf_eval:
  assumes "0 < z" "2 powi k \<le> z" "z < 2 powi (k + 1)" "- 1022 \<le> k"
  shows "doubleOf z = of_int (roundHalfEven (z / 2 powi (k - 52))) * 2 powi (k - 52)"
proof -
  have "\<lfloor>log 2 \<bar>z\<bar>\<rfloor> = k" using binade_eq [OF assms(1-3)] assms(1) by simp
  then have "doubleUlp z = 2 powi (k - 52)" using assms(4) by (simp add: doubleUlp_def)
  then show ?thesis using assms(1) by (simp add: doubleOf_def)
qed

lemma doubleOf_lower:
  assumes "0 < z" "2 powi k \<le> z" "- 1022 \<le> k"
  shows "2 powi k \<le> doubleOf z"
proof -
  define e where "e = \<lfloor>log 2 z\<rfloor>"
  have b: "2 powi e \<le> z" "z < 2 powi (e + 1)" using binade [OF assms(1)] by (simp_all add: e_def)
  have ke: "k \<le> e"
  proof (rule ccontr)
    assume "\<not> k \<le> e"
    then have "e + 1 \<le> k" by simp
    then have "(2::real) powi (e + 1) \<le> 2 powi k" by (intro power_int_increasing) simp_all
    with b(2) assms(2) show False by simp
  qed
  have "max \<lfloor>log 2 z\<rfloor> (- 1022) = e" using ke assms(3) unfolding e_def by linarith
  then have u: "doubleUlp z = 2 powi (e - 52)"
    using assms(1) by (simp add: doubleUlp_def)
  have "2 powi e / 2 powi (e - 52) \<le> z / 2 powi (e - 52)"
    using b(1) by (simp add: divide_right_mono)
  moreover have "(2::real) powi e / 2 powi (e - 52) = 2 ^ 52"
    by (simp add: power_int_diff)
  ultimately have "of_int (2 ^ 52) \<le> z / 2 powi (e - 52)" by simp
  then have "2 ^ 52 \<le> roundHalfEven (z / 2 powi (e - 52))" by (rule roundHalfEven_ge)
  then have "(2::real) ^ 52 \<le> of_int (roundHalfEven (z / 2 powi (e - 52)))"
    by (metis of_int_le_iff of_int_numeral of_int_power)
  then have "(2::real) ^ 52 * 2 powi (e - 52) \<le>
      of_int (roundHalfEven (z / 2 powi (e - 52))) * 2 powi (e - 52)"
    by (intro mult_right_mono) simp_all
  moreover have "(2::real) ^ 52 * 2 powi (e - 52) = 2 powi e"
    by (simp add: power_int_diff)
  ultimately have "(2::real) powi e \<le>
      of_int (roundHalfEven (z / 2 powi (e - 52))) * 2 powi (e - 52)"
    by (simp only:)
  moreover have "doubleOf z = of_int (roundHalfEven (z / 2 powi (e - 52))) * 2 powi (e - 52)"
    using assms(1) u by (simp add: doubleOf_def)
  ultimately have "(2::real) powi e \<le> doubleOf z" by (simp only:)
  moreover have "(2::real) powi k \<le> 2 powi e" using ke by (intro power_int_increasing) simp_all
  ultimately show ?thesis by (rule order_trans [rotated])
qed

lemma doubleOf_same_binade_upper:
  assumes "0 < z" "2 powi k \<le> z" "z < 2 powi (k + 1)" "- 1022 \<le> k"
    "z \<le> of_int n * 2 powi (k - 52)"
  shows "doubleOf z \<le> of_int n * 2 powi (k - 52)"
proof -
  have "z / 2 powi (k - 52) \<le> of_int n"
    using assms(5) by (simp add: pos_divide_le_eq)
  then have "roundHalfEven (z / 2 powi (k - 52)) \<le> n" by (rule roundHalfEven_le)
  then have "of_int (roundHalfEven (z / 2 powi (k - 52))) * 2 powi (k - 52) \<le>
      (of_int n :: real) * 2 powi (k - 52)"
    by (simp add: mult_right_mono)
  then show ?thesis unfolding doubleOf_eval [OF assms(1-4)] .
qed

lemma doubleOf_upper:
  assumes "0 < z" "z < 2 powi (k + 1)" "- 1022 \<le> k"
  shows "doubleOf z \<le> 2 powi (k + 1)"
proof -
  define e where "e = max \<lfloor>log 2 z\<rfloor> (- 1022)"
  have b: "z < 2 powi (\<lfloor>log 2 z\<rfloor> + 1)" "2 powi \<lfloor>log 2 z\<rfloor> \<le> z"
    using binade [OF assms(1)] by simp_all
  have le: "\<lfloor>log 2 z\<rfloor> \<le> k"
  proof (rule ccontr)
    assume "\<not> \<lfloor>log 2 z\<rfloor> \<le> k"
    then have "k + 1 \<le> \<lfloor>log 2 z\<rfloor>" by simp
    then have "(2::real) powi (k + 1) \<le> 2 powi \<lfloor>log 2 z\<rfloor>"
      by (intro power_int_increasing) simp_all
    with b(2) assms(2) show False by simp
  qed
  have ek: "e \<le> k" using le assms(3) by (simp add: e_def)
  have "(2::real) powi (\<lfloor>log 2 z\<rfloor> + 1) \<le> 2 powi (e + 1)"
    by (intro power_int_increasing) (simp_all add: e_def)
  with b(1) have ze: "z < 2 powi (e + 1)" by simp
  have u: "doubleUlp z = 2 powi (e - 52)" using assms(1) by (simp add: doubleUlp_def e_def)
  have "(2::real) powi (e + 1) = 2 ^ 53 * 2 powi (e - 52)"
    by (simp add: power_int_diff power_int_add)
  with ze have "z \<le> of_int (2 ^ 53) * 2 powi (e - 52)" by simp
  then have "z / 2 powi (e - 52) \<le> of_int (2 ^ 53)" by (simp add: pos_divide_le_eq)
  then have "roundHalfEven (z / 2 powi (e - 52)) \<le> 2 ^ 53" by (rule roundHalfEven_le)
  then have "of_int (roundHalfEven (z / 2 powi (e - 52))) \<le> (2::real) ^ 53"
    by (metis of_int_le_iff of_int_numeral of_int_power)
  then have "of_int (roundHalfEven (z / 2 powi (e - 52))) * 2 powi (e - 52) \<le>
      (2::real) ^ 53 * 2 powi (e - 52)"
    by (intro mult_right_mono) simp_all
  moreover have "(2::real) ^ 53 * 2 powi (e - 52) = 2 powi (e + 1)"
    by (simp add: power_int_diff power_int_add)
  ultimately have "of_int (roundHalfEven (z / 2 powi (e - 52))) * 2 powi (e - 52) \<le>
      (2::real) powi (e + 1)"
    by (simp only:)
  moreover have "doubleOf z = of_int (roundHalfEven (z / 2 powi (e - 52))) * 2 powi (e - 52)"
    using assms(1) u by (simp add: doubleOf_def)
  ultimately have "doubleOf z \<le> 2 powi (e + 1)" by (simp only:)
  moreover have "(2::real) powi (e + 1) \<le> 2 powi (k + 1)"
    using ek by (intro power_int_increasing) simp_all
  ultimately show ?thesis by (rule order_trans)
qed


lemma double_002: "doubleOf 0.02 = 5764607523034235 / 2 ^ 58"
proof -
  have "doubleOf 0.02 = of_int (roundHalfEven (0.02 / 2 powi (- 6 - 52))) * 2 powi (- 6 - 52)"
    by (rule doubleOf_eval) (simp_all add: power_int_minus)
  also have "\<dots> = 5764607523034235 / 2 ^ 58"
    by (simp add: roundHalfEven_def Let_def power_int_minus)
  finally show ?thesis .
qed

lemma double_area_large: "1 / 32 \<le> z \<Longrightarrow> doubleOf 0.02 \<le> doubleOf z"
proof -
  assume a: "1 / 32 \<le> z"
  have "2 powi (- 5) \<le> doubleOf z"
    using a by (intro doubleOf_lower) (simp_all add: power_int_minus)
  then have "1 / 32 \<le> doubleOf z" by (simp add: power_int_minus)
  moreover have "doubleOf 0.02 \<le> 1 / 32" unfolding double_002 by simp
  ultimately show ?thesis by simp
qed

lemma double_area_exact:
  assumes "0 < z" "doubleOf 0.02 \<le> doubleOf z"
  shows "0.02 - 1 / 2 ^ 58 < z"
proof (rule ccontr)
  assume "\<not> 0.02 - 1 / 2 ^ 58 < z"
  then have zc: "z \<le> 0.02 - 1 / 2 ^ 58" by simp
  have d: "5764607523034235 / 2 ^ 58 \<le> doubleOf z" using assms(2) unfolding double_002 .
  show False
  proof (cases "z < 2 powi (- 6)")
    case True
    have "doubleOf z \<le> 2 powi (- 7 + 1)"
      using assms(1) True by (intro doubleOf_upper) simp_all
    then have "doubleOf z \<le> 1 / 64" by (simp add: power_int_minus)
    with d show False by simp
  next
    case False
    then have lo: "2 powi (- 6) \<le> z" by simp
    have hi: "z < 2 powi (- 6 + 1)" using zc by (simp add: power_int_minus)
    have le: "z \<le> of_int 5764607523034234 * 2 powi (- 6 - 52)"
      using zc by (simp add: power_int_minus)
    have "doubleOf z \<le> of_int 5764607523034234 * 2 powi (- 6 - 52)"
      using assms(1) lo hi _ le by (rule doubleOf_same_binade_upper) simp
    then have "doubleOf z \<le> 5764607523034234 / 2 ^ 58" by (simp add: power_int_minus)
    with d show False by simp
  qed
qed

lemma double_edge:
  "doubleOf (edgeWidth * edgeHeight) = doubleOf 0.02 \<and> edgeWidth * edgeHeight < 0.02"
proof -
  have "doubleOf (edgeWidth * edgeHeight) =
      of_int (roundHalfEven (edgeWidth * edgeHeight / 2 powi (- 6 - 52))) * 2 powi (- 6 - 52)"
    by (rule doubleOf_eval) (simp_all add: power_int_minus edgeWidth_def edgeHeight_def)
  also have "\<dots> = 5764607523034235 / 2 ^ 58"
    by (simp add: roundHalfEven_def Let_def power_int_minus edgeWidth_def edgeHeight_def)
  finally have "doubleOf (edgeWidth * edgeHeight) = doubleOf 0.02" unfolding double_002 .
  moreover have "edgeWidth * edgeHeight < 0.02" by (simp add: edgeWidth_def edgeHeight_def)
  ultimately show ?thesis by simp
qed

section \<open>Properties of the estimated placement\<close>

text \<open>\<open>stripCodeFences\<close> on a fenced answer and on a bare one.\<close>

lemma stripCodeFences_examples:
  "stripCodeFences (''Here: ```json'' @ [CHR 0x0A] @ ''{}'' @ [CHR 0x0A] @ ''``` done'') =
     ''{}'' @ [CHR 0x0A] \<and>
   stripCodeFences ''{}'' = ''{}''"
  by (simp add: stripCodeFences_def fenceAt_def isLetter_def)

lemma getDefaultBox_valid: "isValidBox (getDefaultBox c)"
proof -
  have "1 / 32 \<le> box_width (getDefaultBox c) * box_height (getDefaultBox c)"
    by (simp add: getDefaultBox_def)
  then have a: "doubleOf 0.02 \<le> doubleOf (box_width (getDefaultBox c) * box_height (getDefaultBox c))"
    by (rule double_area_large)
  have w: "box_x (getDefaultBox c) \<ge> 0 \<and> box_x (getDefaultBox c) \<le> 1 \<and>
      box_y (getDefaultBox c) \<ge> 0 \<and> box_y (getDefaultBox c) \<le> 1 \<and>
      box_width (getDefaultBox c) > 0 \<and> box_width (getDefaultBox c) \<le> 1 \<and>
      box_height (getDefaultBox c) > 0 \<and> box_height (getDefaultBox c) \<le> 1"
    by (simp add: getDefaultBox_def)
  from a w show ?thesis unfolding isValidBox_def Let_def by blast
qed

lemma isValidBox_invariants:
  assumes "isValidBox box"
  shows "fractions_in_unit box \<and> 0 < box_width box \<and> 0 < box_height box \<and>
     doubleOf 0.02 \<le> doubleOf (box_width box * box_height box) \<and>
     0.02 - 1 / 2 ^ 58 < box_width box * box_height box"
proof -
  have a: "fractions_in_unit box \<and> 0 < box_width box \<and> 0 < box_height box \<and>
     doubleOf 0.02 \<le> doubleOf (box_width box * box_height box)"
    using assms by (simp add: isValidBox_def fractions_in_unit_def Let_def)
  then have "0 < box_width box * box_height box" by simp
  then have "0.02 - 1 / 2 ^ 58 < box_width box * box_height box"
    using a by (intro double_area_exact) simp_all
  with a show ?thesis by simp
qed


lemma clamp01_range: "0 \<le> clamp01 v \<and> clamp01 v \<le> 1"
  by (cases v rule: clamp01.cases) simp_all

lemma clamp01_number: "clamp01 (Some (JNum (Num v))) = max 0 (min 1 v)"
  by simp

lemma clamp01_other: "\<forall>n. v \<noteq> Some (JNum n) \<Longrightarrow> clamp01 v = 0"
  by (cases v rule: clamp01.cases) auto

lemma clampedBox_fractions: "fractions_in_unit (clampedBox j)"
  by (simp add: fractions_in_unit_def clampedBox_def clamp01_range)

lemma isValidBox_clamped:
  "isValidBox (clampedBox j) \<longleftrightarrow>
     0 < clamp01 (getProp j ''width'') \<and> 0 < clamp01 (getProp j ''height'') \<and>
     doubleOf 0.02 \<le> doubleOf (clamp01 (getProp j ''width'') * clamp01 (getProp j ''height''))"
  using clamp01_range by (simp add: isValidBox_def clampedBox_def Let_def)

lemma firstFence_none: "CHR 0x60 \<notin> set t \<Longrightarrow> firstFence t = None"
  by (induction t) (auto simp add: fenceAt_def)

lemma estimate_reply:
  assumes "(if keyTruthy apiKey then apiKey else envApiKey hst) = Some key" "key \<noteq> []"
    and "generateContent hst
           (Request key textModel (PlacementPrompt garmentType) [fileToBase64 garmentFile]) = Reply ps"
  shows "estimateGarmentPlacement hst garmentFile garmentType apiKey =
     Inr (case parseJSON hst (stripCodeFences (responseText ps)) of
            None \<Rightarrow> getDefaultBox garmentType
          | Some j \<Rightarrow> if j \<noteq> JNull \<and> isValidBox (clampedBox j) then clampedBox j
                      else getDefaultBox garmentType)"
  using assms by (simp add: estimateGarmentPlacement_def split: option.splits)

lemma estimate_numbers:
  assumes "(if keyTruthy apiKey then apiKey else envApiKey hst) = Some key" "key \<noteq> []"
    and "generateContent hst
           (Request key textModel (PlacementPrompt garmentType) [fileToBase64 garmentFile]) = Reply ps"
    and "parseJSON hst (stripCodeFences (responseText ps)) = Some j"
    and "getProp j ''x'' = Some (JNum (Num vx))" "getProp j ''y'' = Some (JNum (Num vy))"
    and "getProp j ''width'' = Some (JNum (Num vw))" "getProp j ''height'' = Some (JNum (Num vh))"
  shows "estimateGarmentPlacement hst garmentFile garmentType apiKey =
     Inr (if 0 < vw \<and> 0 < vh \<and> doubleOf 0.02 \<le> doubleOf (max 0 (min 1 vw) * max 0 (min 1 vh))
          then \<lparr>box_x = max 0 (min 1 vx), box_y = max 0 (min 1 vy),
                box_width = max 0 (min 1 vw), box_height = max 0 (min 1 vh),
                rotationDeg = rotationOf (getProp j ''rotationDeg'')\<rparr>
          else getDefaultBox garmentType)"
proof -
  have n: "j \<noteq> JNull" using assms(5) by (cases j) simp_all
  have v: "isValidBox (clampedBox j) \<longleftrightarrow>
      0 < vw \<and> 0 < vh \<and> doubleOf 0.02 \<le> doubleOf (max 0 (min 1 vw) * max 0 (min 1 vh))"
    unfolding isValidBox_clamped assms(7,8) clamp01_number by auto
  have c: "clampedBox j =
      \<lparr>box_x = max 0 (min 1 vx), box_y = max 0 (min 1 vy),
       box_width = max 0 (min 1 vw), box_height = max 0 (min 1 vh),
       rotationDeg = rotationOf (getProp j ''rotationDeg'')\<rparr>"
    unfolding clampedBox_def assms(5-8) clamp01_number ..
  have r: "estimateGarmentPlacement hst garmentFile garmentType apiKey =
      Inr (if isValidBox (clampedBox j) then clampedBox j else getDefaultBox garmentType)"
    unfolding estimate_reply [OF assms(1-3)] assms(4) using n by simp
  have r2: "estimateGarmentPlacement hst garmentFile garmentType apiKey =
      Inr (if 0 < vw \<and> 0 < vh \<and>
              doubleOf 0.02 \<le> doubleOf (max 0 (min 1 vw) * max 0 (min 1 vh))
           then clampedBox j else getDefaultBox garmentType)"
    using r unfolding v .
  show ?thesis using r2 unfolding c .
qed

lemma estimate_not_numbers:
  assumes "(if keyTruthy apiKey then apiKey else envApiKey hst) = Some key" "key \<noteq> []"
    and "generateContent hst
           (Request key textModel (PlacementPrompt garmentType) [fileToBase64 garmentFile]) = Reply ps"
    and "parseJSON hst (stripCodeFences (responseText ps)) = Some j"
    and "(\<forall>n. getProp j ''width'' \<noteq> Some (JNum n)) \<or> (\<forall>n. getProp j ''height'' \<noteq> Some (JNum n))"
  shows "estimateGarmentPlacement hst garmentFile garmentType apiKey =
     Inr (getDefaultBox garmentType)"
proof -
  have "clamp01 (getProp j ''width'') = 0 \<or> clamp01 (getProp j ''height'') = 0"
    using assms(5) clamp01_other by blast
  then have "\<not> isValidBox (clampedBox j)" unfolding isValidBox_clamped by auto
  then show ?thesis unfolding estimate_reply [OF assms(1-3)] assms(4) by simp
qed

lemma overshoot_parsed:
  "parseJSON overshootHost (stripCodeFences (responseText [TextPart overshootText])) =
     Some overshootJson"
proof -
  have "CHR 0x60 \<notin> set overshootText" by (simp add: overshootText_def quoted_def)
  then have "firstFence overshootText = None" by (rule firstFence_none)
  then have "stripCodeFences overshootText = overshootText" by (simp add: stripCodeFences_def)
  then show ?thesis by (simp add: overshootHost_def)
qed

lemma edge_parsed:
  "parseJSON edgeHost (stripCodeFences (responseText [TextPart edgeText])) = Some edgeJson"
proof -
  have "CHR 0x60 \<notin> set edgeText" by (simp add: edgeText_def quoted_def)
  then have "firstFence edgeText = None" by (rule firstFence_none)
  then have "stripCodeFences edgeText = edgeText" by (simp add: stripCodeFences_def)
  then show ?thesis by (simp add: edgeHost_def)
qed

lemma half_area: "doubleOf 0.02 \<le> doubleOf (max 0 (min 1 0.5) * max 0 (min 1 0.5))"
  by (rule double_area_large) simp

text \<open>
  Claim C6, as the code has it. Given a key and a reply of the service, the call
  returns a box, never an error. The returned box has its four fractions in \<open>[0, 1]\<close>,
  width and height above \<open>0\<close>, and an area of at least \<open>0.02\<close> as the program
  computes it, that is as a double product against the double \<open>0.02\<close>; the exact
  product is then above \<open>0.02 - 1 / 2 ^ 58\<close>. A reply that does not parse, or that
  parses to \<open>null\<close>, gives the table's box for the garment type. For a reply with four
  numbers \<open>x\<close>, \<open>y\<close>, \<open>width\<close>, \<open>height\<close>, each is clamped into \<open>[0, 1]\<close> (the
  value \<open>max 0 (min 1 v)\<close>), whatever it was; the box of the clamped values is
  returned when width and height are positive and their double product is at least the
  double \<open>0.02\<close>, and the table's box otherwise. A width or a height that is not a
  number counts as \<open>0\<close>, so the table's box is returned. In general the result is the
  box \<open>clampedBox\<close> builds when \<open>isValidBox\<close> accepts it, and the table's box when
  not.
\<close>

theorem estimate_placement_validated:
  assumes "(if keyTruthy apiKey then apiKey else envApiKey hst) = Some key" "key \<noteq> []"
    and "generateContent hst
           (Request key textModel (PlacementPrompt garmentType) [fileToBase64 garmentFile]) = Reply ps"
  shows "(\<exists>box. estimateGarmentPlacement hst garmentFile garmentType apiKey = Inr box \<and>
            isValidBox box \<and> fractions_in_unit box \<and> 0 < box_width box \<and> 0 < box_height box \<and>
            doubleOf 0.02 \<le> doubleOf (box_width box * box_height box) \<and>
            0.02 - 1 / 2 ^ 58 < box_width box * box_height box) \<and>
         (parseJSON hst (stripCodeFences (responseText ps)) = None \<or>
          parseJSON hst (stripCodeFences (responseText ps)) = Some JNull \<longrightarrow>
            estimateGarmentPlacement hst garmentFile garmentType apiKey =
              Inr (getDefaultBox garmentType)) \<and>
         (\<forall>j vx vy vw vh.
            parseJSON hst (stripCodeFences (responseText ps)) = Some j \<and>
            getProp j ''x'' = Some (JNum (Num vx)) \<and> getProp j ''y'' = Some (JNum (Num vy)) \<and>
            getProp j ''width'' = Some (JNum (Num vw)) \<and>
            getProp j ''height'' = Some (JNum (Num vh)) \<longrightarrow>
            estimateGarmentPlacement hst garmentFile garmentType apiKey =
              Inr (if 0 < vw \<and> 0 < vh \<and>
                      doubleOf 0.02 \<le> doubleOf (max 0 (min 1 vw) * max 0 (min 1 vh))
                   then \<lparr>box_x = max 0 (min 1 vx), box_y = max 0 (min 1 vy),
                         box_width = max 0 (min 1 vw), box_height = max 0 (min 1 vh),
                         rotationDeg = rotationOf (getProp j ''rotationDeg'')\<rparr>
                   else getDefaultBox garmentType)) \<and>
         (\<forall>j. parseJSON hst (stripCodeFences (responseText ps)) = Some j \<and>
              ((\<forall>n. getProp j ''width'' \<noteq> Some (JNum n)) \<or>
               (\<forall>n. getProp j ''height'' \<noteq> Some (JNum n))) \<longrightarrow>
            estimateGarmentPlacement hst garmentFile garmentType apiKey =
              Inr (getDefaultBox garmentType)) \<and>
         (\<forall>j. parseJSON hst (stripCodeFences (responseText ps)) = Some j \<longrightarrow>
            estimateGarmentPlacement hst garmentFile garmentType apiKey =
              Inr (if j \<noteq> JNull \<and> isValidBox (clampedBox j) then clampedBox j
                   else getDefaultBox garmentType))"
proof -
  note e = estimate_reply [OF assms]
  have v: "isValidBox (case parseJSON hst (stripCodeFences (responseText ps)) of
            None \<Rightarrow> getDefaultBox garmentType
          | Some j \<Rightarrow> if j \<noteq> JNull \<and> isValidBox (clampedBox j) then clampedBox j
                      else getDefaultBox garmentType)"
    by (simp add: getDefaultBox_valid split: option.splits)
  have a: "\<exists>box. estimateGarmentPlacement hst garmentFile garmentType apiKey = Inr box \<and>
            isValidBox box \<and> fractions_in_unit box \<and> 0 < box_width box \<and> 0 < box_height box \<and>
            doubleOf 0.02 \<le> doubleOf (box_width box * box_height box) \<and>
            0.02 - 1 / 2 ^ 58 < box_width box * box_height box"
    using e isValidBox_invariants [OF v] v by blast
  have b: "parseJSON hst (stripCodeFences (responseText ps)) = None \<or>
          parseJSON hst (stripCodeFences (responseText ps)) = Some JNull \<longrightarrow>
            estimateGarmentPlacement hst garmentFile garmentType apiKey =
              Inr (getDefaultBox garmentType)"
    using e by auto
  have c: "\<forall>j vx vy vw vh.
            parseJSON hst (stripCodeFences (responseText ps)) = Some j \<and>
            getProp j ''x'' = Some (JNum (Num vx)) \<and> getProp j ''y'' = Some (JNum (Num vy)) \<and>
            getProp j ''width'' = Some (JNum (Num vw)) \<and>
            getProp j ''height'' = Some (JNum (Num vh)) \<longrightarrow>
            estimateGarmentPlacement hst garmentFile garmentType apiKey =
              Inr (if 0 < vw \<and> 0 < vh \<and>
                      doubleOf 0.02 \<le> doubleOf (max 0 (min 1 vw) * max 0 (min 1 vh))
                   then \<lparr>box_x = max 0 (min 1 vx), box_y = max 0 (min 1 vy),
                         box_width = max 0 (min 1 vw), box_height = max 0 (min 1 vh),
                         rotationDeg = rotationOf (getProp j ''rotationDeg'')\<rparr>
                   else getDefaultBox garmentType)"
    using estimate_numbers [OF assms] by blast
  have d: "\<forall>j. parseJSON hst (stripCodeFences (responseText ps)) = Some j \<and>
              ((\<forall>n. getProp j ''width'' \<noteq> Some (JNum n)) \<or>
               (\<forall>n. getProp j ''height'' \<noteq> Some (JNum n))) \<longrightarrow>
            estimateGarmentPlacement hst garmentFile garmentType apiKey =
              Inr (getDefaultBox garmentType)"
    using estimate_not_numbers [OF assms] by blast
  have f: "\<forall>j. parseJSON hst (stripCodeFences (responseText ps)) = Some j \<longrightarrow>
            estimateGarmentPlacement hst garmentFile garmentType apiKey =
              Inr (if j \<noteq> JNull \<and> isValidBox (clampedBox j) then clampedBox j
                   else getDefaultBox garmentType)"
    using e by simp
  from a b c d f show ?thesis by blast
qed

text \<open>
  The theorem for a reply with \<open>x = 5\<close>, which comes back clamped to \<open>1\<close>, and for a
  reply that is not JSON, where the dress gets the dress box.
\<close>

theorem estimate_placement_validated_witness:
  "envApiKey overshootHost = Some ''key'' \<and>
   generateContent overshootHost
     (Request ''key'' textModel (PlacementPrompt ''top'') [fileToBase64 pngFile]) =
     Reply [TextPart overshootText] \<and>
   parseJSON overshootHost (stripCodeFences (responseText [TextPart overshootText])) =
     Some overshootJson \<and>
   getProp overshootJson ''x'' = Some (JNum (Num 5)) \<and>
   getProp overshootJson ''y'' = Some (JNum (Num 0.25)) \<and>
   getProp overshootJson ''width'' = Some (JNum (Num 0.5)) \<and>
   getProp overshootJson ''height'' = Some (JNum (Num 0.5)) \<and>
   estimateGarmentPlacement overshootHost pngFile ''top'' None =
     Inr \<lparr>box_x = 1, box_y = 0.25, box_width = 0.5, box_height = 0.5, rotationDeg = Num 0\<rparr> \<and>
   parseJSON chattyHost
     (stripCodeFences (responseText [TextPart ''Sorry, I cannot help with that.''])) = None \<and>
   estimateGarmentPlacement chattyHost pngFile ''dress'' None =
     Inr \<lparr>box_x = 0.225, box_y = 0.08, box_width = 0.55, box_height = 0.82, rotationDeg = Num 0\<rparr>"
proof -
  have e: "envApiKey overshootHost = Some ''key''" by (simp add: overshootHost_def)
  have k: "(if keyTruthy None then None else envApiKey overshootHost) = Some ''key''"
    by (simp add: overshootHost_def keyTruthy_def)
  have n: "''key'' \<noteq> []" by simp
  have r: "generateContent overshootHost
     (Request ''key'' textModel (PlacementPrompt ''top'') [fileToBase64 pngFile]) =
     Reply [TextPart overshootText]"
    by (simp add: overshootHost_def)
  note p = overshoot_parsed
  have px: "getProp overshootJson ''x'' = Some (JNum (Num 5))" by (simp add: overshootJson_def)
  have py: "getProp overshootJson ''y'' = Some (JNum (Num 0.25))" by (simp add: overshootJson_def)
  have pw: "getProp overshootJson ''width'' = Some (JNum (Num 0.5))"
    by (simp add: overshootJson_def)
  have ph: "getProp overshootJson ''height'' = Some (JNum (Num 0.5))"
    by (simp add: overshootJson_def)
  have pr: "rotationOf (getProp overshootJson ''rotationDeg'') = Num 0"
    by (simp add: overshootJson_def)
  from estimate_placement_validated [OF k n r] p px py pw ph
  have "estimateGarmentPlacement overshootHost pngFile ''top'' None =
      Inr (if 0 < (0.5::real) \<and> 0 < (0.5::real) \<and>
              doubleOf 0.02 \<le> doubleOf (max 0 (min 1 0.5) * max 0 (min 1 0.5))
           then \<lparr>box_x = max 0 (min 1 5), box_y = max 0 (min 1 0.25),
                 box_width = max 0 (min 1 0.5), box_height = max 0 (min 1 0.5),
                 rotationDeg = rotationOf (getProp overshootJson ''rotationDeg'')\<rparr>
           else getDefaultBox ''top'')"
    by blast
  then have a: "estimateGarmentPlacement overshootHost pngFile ''top'' None =
     Inr \<lparr>box_x = 1, box_y = 0.25, box_width = 0.5, box_height = 0.5, rotationDeg = Num 0\<rparr>"
    using half_area pr by simp
  have k': "(if keyTruthy None then None else envApiKey chattyHost) = Some ''key''"
    by (simp add: chattyHost_def keyTruthy_def)
  have r': "generateContent chattyHost
     (Request ''key'' textModel (PlacementPrompt ''dress'') [fileToBase64 pngFile]) =
     Reply [TextPart ''Sorry, I cannot help with that.'']"
    by (simp add: chattyHost_def)
  have p': "parseJSON chattyHost
     (stripCodeFences (responseText [TextPart ''Sorry, I cannot help with that.''])) = None"
    by (simp add: chattyHost_def plainHost_def)
  from estimate_placement_validated [OF k' n r'] p'
  have "estimateGarmentPlacement chattyHost pngFile ''dress'' None = Inr (getDefaultBox ''dress'')"
    by blast
  then have b: "estimateGarmentPlacement chattyHost pngFile ''dress'' None =
     Inr \<lparr>box_x = 0.225, box_y = 0.08, box_width = 0.55, box_height = 0.82, rotationDeg = Num 0\<rparr>"
    by (simp add: getDefaultBox_def)
  from e r p px py pw ph a p' b show ?thesis by blast
qed

text \<open>
  Claim C6 as stated fails twice. A reply with \<open>x = 5\<close> is out of range, yet it is not
  replaced by the table's box for \<open>top\<close>: \<open>x\<close> is clamped to \<open>1\<close> and the box is
  returned. And a reply with width \<open>0.7999999999999999\<close> and height \<open>0.025\<close> is
  returned as it is, although the exact area of that box is below \<open>0.02\<close>: the double
  product rounds up to the double \<open>0.02\<close>.
\<close>

theorem estimate_placement_clamps_counterexample:
  "getProp overshootJson ''x'' = Some (JNum (Num 5)) \<and>
   estimateGarmentPlacement overshootHost pngFile ''top'' None =
     Inr \<lparr>box_x = 1, box_y = 0.25, box_width = 0.5, box_height = 0.5, rotationDeg = Num 0\<rparr> \<and>
   getDefaultBox ''top'' =
     \<lparr>box_x = 0.25, box_y = 0.18, box_width = 0.5, box_height = 0.4, rotationDeg = Num 0\<rparr> \<and>
   estimateGarmentPlacement edgeHost pngFile ''top'' None =
     Inr \<lparr>box_x = 0.25, box_y = 0.25, box_width = edgeWidth, box_height = edgeHeight,
          rotationDeg = Num 0\<rparr> \<and>
   edgeWidth * edgeHeight < 0.02"
proof -
  have n: "''key'' \<noteq> []" by simp
  have k: "(if keyTruthy None then None else envApiKey overshootHost) = Some ''key''"
    by (simp add: overshootHost_def keyTruthy_def)
  have r: "generateContent overshootHost
     (Request ''key'' textModel (PlacementPrompt ''top'') [fileToBase64 pngFile]) =
     Reply [TextPart overshootText]"
    by (simp add: overshootHost_def)
  have px: "getProp overshootJson ''x'' = Some (JNum (Num 5))" by (simp add: overshootJson_def)
  have py: "getProp overshootJson ''y'' = Some (JNum (Num 0.25))" by (simp add: overshootJson_def)
  have pw: "getProp overshootJson ''width'' = Some (JNum (Num 0.5))"
    by (simp add: overshootJson_def)
  have ph: "getProp overshootJson ''height'' = Some (JNum (Num 0.5))"
    by (simp add: overshootJson_def)
  have pr: "rotationOf (getProp overshootJson ''rotationDeg'') = Num 0"
    by (simp add: overshootJson_def)
  have a: "estimateGarmentPlacement overshootHost pngFile ''top'' None =
     Inr \<lparr>box_x = 1, box_y = 0.25, box_width = 0.5, box_height = 0.5, rotationDeg = Num 0\<rparr>"
    using estimate_numbers [OF k n r overshoot_parsed px py pw ph] half_area pr by simp
  have d: "getDefaultBox ''top'' =
     \<lparr>box_x = 0.25, box_y = 0.18, box_width = 0.5, box_height = 0.4, rotationDeg = Num 0\<rparr>"
    by (simp add: getDefaultBox_def)
  have k': "(if keyTruthy None then None else envApiKey edgeHost) = Some ''key''"
    by (simp add: edgeHost_def keyTruthy_def)
  have r': "generateContent edgeHost
     (Request ''key'' textModel (PlacementPrompt ''top'') [fileToBase64 pngFile]) =
     Reply [TextPart edgeText]"
    by (simp add: edgeHost_def)
  have qx: "getProp edgeJson ''x'' = Some (JNum (Num 0.25))" by (simp add: edgeJson_def)
  have qy: "getProp edgeJson ''y'' = Some (JNum (Num 0.25))" by (simp add: edgeJson_def)
  have qw: "getProp edgeJson ''width'' = Some (JNum (Num edgeWidth))" by (simp add: edgeJson_def)
  have qh: "getProp edgeJson ''height'' = Some (JNum (Num edgeHeight))" by (simp add: edgeJson_def)
  have qr: "rotationOf (getProp edgeJson ''rotationDeg'') = Num 0" by (simp add: edgeJson_def)
  have pos: "0 < edgeWidth" "0 < edgeHeight" by (simp_all add: edgeWidth_def edgeHeight_def)
  have cw: "max 0 (min 1 edgeWidth) = edgeWidth" by (simp add: edgeWidth_def)
  have ch: "max 0 (min 1 edgeHeight) = edgeHeight" by (simp add: edgeHeight_def)
  have ar: "doubleOf 0.02 \<le> doubleOf (edgeWidth * edgeHeight)" using double_edge by simp
  have b: "estimateGarmentPlacement edgeHost pngFile ''top'' None =
     Inr \<lparr>box_x = 0.25, box_y = 0.25, box_width = edgeWidth, box_height = edgeHeight,
          rotationDeg = Num 0\<rparr>"
    using estimate_numbers [OF k' n r' edge_parsed qx qy qw qh] pos ar qr
    unfolding cw ch by simp
  from px a d b double_edge show ?thesis by blast
qed

end
